theory Spec2Isabelle
  imports Complex_Main
begin

section \<open>Numbers, vectors and the random source\<close>

text \<open>
  The program is TypeScript; every \<open>number\<close> is modelled as a \<open>real\<close>: the arithmetic
  of the source is taken exact (no rounding, no overflow). Where a claim is about the
  IEEE special values (\<open>NaN\<close>, the infinities) a second number type with those values is
  used, see the section on special values below.

  \<open>Math.random()\<close> is ambient state of the JavaScript runtime. It is modelled as an
  explicit stream of draws that is passed through every function that calls it: a call
  takes the head of the stream and leaves the tail. The runtime promises a draw in
  \<open>[0, 1)\<close>, which is the predicate \<open>rng_ok\<close>.
\<close>

type_synonym vec3 = "real \<times> real \<times> real"

type_synonym rng = "nat \<Rightarrow> real"

definition random :: "rng \<Rightarrow> real \<times> rng" where
  "random g = (g 0, \<lambda>n. g (Suc n))"

definition rng_ok :: "rng \<Rightarrow> bool" where
  "rng_ok g \<longleftrightarrow> (\<forall>n. 0 \<le> g n \<and> g n < 1)"

section \<open>types.ts\<close>

datatype TreeMorphState = SCATTERED | TREE_SHAPE

text \<open>The \<open>type\<close> prop of an ornament group is \<open>'SPHERE' | 'BOX'\<close>.\<close>

datatype OrnamentType = SPHERE | BOX

text \<open>
  \<open>OrnamentData\<close>, with the \<open>scaleVector\<close> field that the builder attaches. A colour is a
  JavaScript string or \<open>undefined\<close> (what an array read out of range gives): \<open>None\<close> is
  \<open>undefined\<close>.
\<close>

record OrnamentData =
  item_id :: nat
  item_type :: OrnamentType
  scatter :: vec3
  tree :: vec3
  scale :: real
  rotation :: vec3
  color :: "string option"
  speed :: real
  offset :: real
  scaleVector :: vec3

section \<open>utils/math.ts\<close>

definition TREE_HEIGHT :: real where "TREE_HEIGHT = 12"
definition TREE_RADIUS_BASE :: real where "TREE_RADIUS_BASE = 5.5"
definition SCATTER_RADIUS :: real where "SCATTER_RADIUS = 18"

text \<open>\<open>Math.cbrt\<close> is the real cube root, \<open>Math.acos\<close> the arc cosine.\<close>

definition getRandomSpherePoint :: "real \<Rightarrow> rng \<Rightarrow> vec3 \<times> rng" where
  "getRandomSpherePoint radius g =
     (let (u, g1) = random g;
          (v, g2) = random g1;
          theta = 2 * pi * u;
          phi = arccos (2 * v - 1);
          (w, g3) = random g2;
          r = root 3 w * radius;
          x = r * sin phi * cos theta;
          y = r * sin phi * sin theta;
          z = r * cos phi
      in ((x, y, z), g3))"

definition getTreePoint :: "real \<Rightarrow> real \<Rightarrow> real \<Rightarrow> rng \<Rightarrow> vec3 \<times> rng" where
  "getTreePoint height radiusBase yOffset g =
     (let (h, g1) = random g;
          y = h * height;
          currentRadius = (1 - h) * radiusBase;
          (a, g2) = random g1;
          angle = a * pi * 2;
          (s, g3) = random g2;
          r = sqrt s * currentRadius;
          x = r * cos angle;
          z = r * sin angle
      in ((x, y + yOffset, z), g3))"

text \<open>
  The spiral placement reads nothing but its parameters. The division is the real one;
  the builder calls the function with \<open>totalPoints = count > t\<close> only, and the case
  \<open>totalPoints = 0\<close> is treated with the special values below.
\<close>

definition getTreeSpiralPoint :: "real \<Rightarrow> real \<Rightarrow> real \<Rightarrow> real \<Rightarrow> real \<Rightarrow> vec3" where
  "getTreeSpiralPoint t totalPoints height radiusBase yOffset =
     (let hRatio = t / totalPoints;
          y = hRatio * height + yOffset;
          r = (1 - hRatio) * radiusBase;
          angle = t * 2.39996;
          x = r * cos angle;
          z = r * sin angle
      in (x, y, z))"

section \<open>The easing and the blend\<close>

text \<open>
  The cubic ease is written twice in the source: inline in the frame callback of
  \<open>OrnamentGroup\<close> (\<open>easeT\<close>) and as \<open>easeInOutCubic\<close> in the vertex shader of the foliage.
  \<open>Math.pow(x, 3)\<close> and GLSL's \<open>pow(x, 3.0)\<close> are the third power.
\<close>

definition easeInOutCubic :: "real \<Rightarrow> real" where
  "easeInOutCubic x = (if x < 0.5 then 4 * x * x * x else 1 - (- 2 * x + 2) ^ 3 / 2)"

text \<open>
  \<open>THREE.MathUtils.lerp(x, y, t)\<close> of the three.js library is \<open>(1 - t) * x + t * y\<close>;
  GLSL's \<open>mix(x, y, a)\<close> is \<open>x * (1 - a) + y * a\<close>, componentwise on vectors.
\<close>

definition lerp :: "real \<Rightarrow> real \<Rightarrow> real \<Rightarrow> real" where
  "lerp x y t = (1 - t) * x + t * y"

definition mix :: "vec3 \<Rightarrow> vec3 \<Rightarrow> real \<Rightarrow> vec3" where
  "mix a b t =
     (case (a, b) of ((ax, ay, az), (bx, by, bz)) \<Rightarrow>
        (ax * (1 - t) + bx * t, ay * (1 - t) + by * t, az * (1 - t) + bz * t))"

section \<open>components/Ornaments.tsx: building the data of a group\<close>

text \<open>
  The body of the \<open>useMemo\<close> loop of \<open>OrnamentGroup\<close>, in the order in which it calls
  \<open>Math.random()\<close>. First the colour: the default, replaced by a palette entry when the
  optional palette is present and not empty. \<open>Math.floor\<close> gives an integer; reading an
  array outside its bounds gives \<open>undefined\<close>.
\<close>

definition pickColor :: "string list option \<Rightarrow> rng \<Rightarrow> string option \<times> rng" where
  "pickColor palette g =
     (case palette of
        None \<Rightarrow> (Some ''#d4af37'', g)
      | Some pal \<Rightarrow>
          if length pal > 0 then
            (let (c, g1) = random g;
                 k = \<lfloor>c * real (length pal)\<rfloor>
             in ((if 0 \<le> k \<and> k < int (length pal) then Some (pal ! nat k) else None), g1))
          else (Some ''#d4af37'', g))"

text \<open>The scale logic: the per-axis vector and the base scale of one item.\<close>

definition scaleLogic ::
  "OrnamentType \<Rightarrow> real \<Rightarrow> string option \<Rightarrow> rng \<Rightarrow> (vec3 \<times> real) \<times> rng" where
  "scaleLogic type scaleBase colorHex g =
     (case type of
        BOX \<Rightarrow>
          (let (w, g1) = random g;
               (h, g2) = random g1;
               (d, g3) = random g2;
               scaleVec = (0.8 + w * 0.4, 0.6 + h * 0.6, 0.8 + d * 0.4);
               (b, g4) = random g3
           in ((scaleVec, scaleBase * (0.8 + b * 0.4)), g4))
      | SPHERE \<Rightarrow>
          (let (b, g1) = random g;
               itemScaleBase = scaleBase * (0.8 + b * 0.4)
           in if colorHex \<noteq> Some ''#8a0000'' then
                (let (r, g2) = random g1
                 in if r < 0.04 then
                      (let (l, g3) = random g2
                       in (((1, 1, 1), scaleBase * (2.2 + l * 0.2)), g3))
                    else if r < 0.20 then
                      (let (m, g3) = random g2
                       in (((1, 1, 1), scaleBase * (1.4 + m * 0.4)), g3))
                    else (((1, 1, 1), itemScaleBase), g2))
              else (((1, 1, 1), itemScaleBase), g1)))"

text \<open>One iteration of the loop: the record pushed for index \<open>i\<close>.\<close>

definition mkItem ::
  "OrnamentType \<Rightarrow> nat \<Rightarrow> real \<Rightarrow> string list option \<Rightarrow> nat \<Rightarrow> rng \<Rightarrow> OrnamentData \<times> rng" where
  "mkItem type count scaleBase palette i g =
     (let (scatter0, g1) = getRandomSpherePoint SCATTER_RADIUS g;
          (tx, ty, tz) = getTreeSpiralPoint (real i) (real count) TREE_HEIGHT
                           (TREE_RADIUS_BASE * (if type = BOX then 0.8 else 0.9)) (- 5);
          (j0, g2) = random g1;
          tx' = tx + (j0 - 0.5) * 0.5;
          (j2, g3) = random g2;
          tz' = tz + (j2 - 0.5) * 0.5;
          (colorHex, g4) = pickColor palette g3;
          ((scaleVec, itemScaleBase), g5) = scaleLogic type scaleBase colorHex g4;
          (r0, g6) = random g5;
          (r1, g7) = random g6;
          (s, g8) = random g7;
          (off, g9) = random g8
      in (\<lparr> item_id = i, item_type = type, scatter = scatter0, tree = (tx', ty, tz'),
            scale = itemScaleBase, rotation = (r0 * pi, r1 * pi, 0), color = colorHex,
            speed = 0.2 + s * 0.5, offset = off * 100, scaleVector = scaleVec \<rparr>, g9))"

text \<open>The loop \<open>for (let i = 0; i < count; i++)\<close>, pushing onto \<open>items\<close>.\<close>

function buildLoop ::
  "OrnamentType \<Rightarrow> nat \<Rightarrow> real \<Rightarrow> string list option \<Rightarrow> nat \<Rightarrow> rng \<Rightarrow> OrnamentData list
     \<Rightarrow> OrnamentData list \<times> rng" where
  "buildLoop type count scaleBase palette i g items =
     (if i < count then
        (let (item, g') = mkItem type count scaleBase palette i g
         in buildLoop type count scaleBase palette (Suc i) g' (items @ [item]))
      else (items, g))"
  by pat_completeness auto
termination
  by (relation "measure (\<lambda>(type, count, scaleBase, palette, i, g, items). count - i)") auto

definition buildData ::
  "OrnamentType \<Rightarrow> nat \<Rightarrow> real \<Rightarrow> string list option \<Rightarrow> rng \<Rightarrow> OrnamentData list" where
  "buildData type count scaleBase palette g = fst (buildLoop type count scaleBase palette 0 g [])"

text \<open>
  The stream as iteration \<open>i\<close> of the loop finds it: the stream the iterations before it
  have left. \<open>drop_rng m g\<close> is the stream \<open>g\<close> without its first \<open>m\<close> draws.
\<close>

fun iterRng :: "OrnamentType \<Rightarrow> nat \<Rightarrow> real \<Rightarrow> string list option \<Rightarrow> nat \<Rightarrow> rng \<Rightarrow> rng" where
  "iterRng type count scaleBase palette 0 g = g"
| "iterRng type count scaleBase palette (Suc i) g =
     snd (mkItem type count scaleBase palette i (iterRng type count scaleBase palette i g))"

definition drop_rng :: "nat \<Rightarrow> rng \<Rightarrow> rng" where
  "drop_rng m g = (\<lambda>n. g (n + m))"

section \<open>components/Ornaments.tsx: the frame callback of a group\<close>

text \<open>
  \<open>tempObj\<close> is a \<open>THREE.Object3D\<close>: a position, Euler angles and a scale. Its
  \<open>updateMatrix()\<close> composes the three into its matrix and \<open>setMatrixAt(i, matrix)\<close> copies
  that matrix into slot \<open>i\<close> of the instance buffer; the matrix is represented by the three
  values it is composed from. A write outside the buffer is dropped.
\<close>

record Object3D =
  obj_position :: vec3
  obj_rotation :: vec3
  obj_scale :: vec3

definition new_Object3D :: Object3D where
  "new_Object3D = \<lparr> obj_position = (0, 0, 0), obj_rotation = (0, 0, 0), obj_scale = (1, 1, 1) \<rparr>"

text \<open>
  What a mounted group holds between frames: the memoised data, the scratch object, the
  progress ref, and the mesh ref, which is \<open>null\<close> (\<open>None\<close>) until the mesh is mounted and
  then holds the instance matrices.
\<close>

record OrnamentGroup_state =
  data :: "OrnamentData list"
  tempObj :: Object3D
  orn_progressRef :: real
  meshRef :: "Object3D list option"

definition OrnamentGroup_init ::
  "OrnamentType \<Rightarrow> nat \<Rightarrow> real \<Rightarrow> string list option \<Rightarrow> rng \<Rightarrow> OrnamentGroup_state" where
  "OrnamentGroup_init type count scaleBase palette g =
     \<lparr> data = buildData type count scaleBase palette g, tempObj = new_Object3D,
       orn_progressRef = 0, meshRef = None \<rparr>"

definition OrnamentGroup_mount :: "nat \<Rightarrow> OrnamentGroup_state \<Rightarrow> OrnamentGroup_state" where
  "OrnamentGroup_mount count s = s\<lparr> meshRef := Some (replicate count new_Object3D) \<rparr>"

text \<open>The three rotation assignments of the \<open>forEach\<close> callback.\<close>

definition itemRotation :: "OrnamentData \<Rightarrow> real \<Rightarrow> real \<Rightarrow> vec3" where
  "itemRotation item easeT time =
     (case rotation item of (r0, r1, r2) \<Rightarrow>
        (r0 + (time * 0.2 * (1 - easeT)), r1 + (time * 0.1), r2))"

text \<open>The callback of \<open>data.forEach\<close>: what it leaves in \<open>tempObj\<close> for one item.\<close>

definition frameItem :: "real \<Rightarrow> real \<Rightarrow> OrnamentData \<Rightarrow> Object3D \<Rightarrow> Object3D" where
  "frameItem easeT time item tmp =
     (case (scatter item, tree item) of ((s0, s1, s2), (t0, t1, t2)) \<Rightarrow>
        (let x = lerp s0 t0 easeT;
             y = lerp s1 t1 easeT;
             z = lerp s2 t2 easeT;
             floatY = sin (time * speed item + offset item) * (0.2 * (1 - easeT));
             scalePop = scale item * (0.8 + 0.2 * sin (time + offset item))
         in (case scaleVector item of (sv0, sv1, sv2) \<Rightarrow>
               tmp\<lparr> obj_position := (x, y + floatY, z),
                    obj_rotation := itemRotation item easeT time,
                    obj_scale := (sv0 * scalePop, sv1 * scalePop, sv2 * scalePop) \<rparr>)))"

fun forEach_item ::
  "real \<Rightarrow> real \<Rightarrow> OrnamentData list \<Rightarrow> nat \<Rightarrow> Object3D \<times> Object3D list
     \<Rightarrow> Object3D \<times> Object3D list" where
  "forEach_item easeT time [] i (tmp, mesh) = (tmp, mesh)"
| "forEach_item easeT time (item # rest) i (tmp, mesh) =
     (let tmp' = frameItem easeT time item tmp
      in forEach_item easeT time rest (Suc i) (tmp', mesh[i := tmp']))"

definition OrnamentGroup_useFrame ::
  "TreeMorphState \<Rightarrow> OrnamentType \<Rightarrow> real \<Rightarrow> real \<Rightarrow> OrnamentGroup_state \<Rightarrow> OrnamentGroup_state" where
  "OrnamentGroup_useFrame state type time delta s =
     (case meshRef s of
        None \<Rightarrow> s
      | Some mesh \<Rightarrow>
          (let target = (if state = TREE_SHAPE then 1.0 else 0.0);
               lerpSpeed = (if type = BOX then 1.2 else 1.8);
               p = orn_progressRef s + (target - orn_progressRef s) * lerpSpeed * delta;
               t = p;
               easeT = easeInOutCubic t;
               (tmp', mesh') = forEach_item easeT time (data s) 0 (tempObj s, mesh)
           in s\<lparr> orn_progressRef := p, tempObj := tmp', meshRef := Some mesh' \<rparr>))"

text \<open>A run of frames: each frame has the state prop, the elapsed time and the delta.\<close>

definition OrnamentGroup_frames ::
  "OrnamentType \<Rightarrow> (TreeMorphState \<times> real \<times> real) list \<Rightarrow> OrnamentGroup_state
     \<Rightarrow> OrnamentGroup_state" where
  "OrnamentGroup_frames type fs s =
     fold (\<lambda>(state, time, delta). OrnamentGroup_useFrame state type time delta) fs s"

section \<open>components/Foliage.tsx\<close>

text \<open>
  The two scalar uniforms of \<open>FoliageMaterial\<close>, the material ref (\<open>null\<close> until mounted)
  and the progress ref.
\<close>

record uniforms =
  uTime :: real
  uProgress :: real

definition FoliageMaterial :: uniforms where
  "FoliageMaterial = \<lparr> uTime = 0, uProgress = 0 \<rparr>"

record Foliage_state =
  materialRef :: "uniforms option"
  progressRef :: real

definition Foliage_init :: Foliage_state where
  "Foliage_init = \<lparr> materialRef = None, progressRef = 0 \<rparr>"

definition Foliage_mount :: "Foliage_state \<Rightarrow> Foliage_state" where
  "Foliage_mount s = s\<lparr> materialRef := Some FoliageMaterial \<rparr>"

definition Foliage_useFrame :: "TreeMorphState \<Rightarrow> real \<Rightarrow> Foliage_state \<Rightarrow> Foliage_state" where
  "Foliage_useFrame state delta s =
     (case materialRef s of
        None \<Rightarrow> s
      | Some u \<Rightarrow>
          (let u1 = u\<lparr> uTime := uTime u + delta \<rparr>;
               target = (if state = TREE_SHAPE then 1.0 else 0.0);
               speed' = 1.5;
               p = progressRef s + (target - progressRef s) * speed' * delta
           in s\<lparr> progressRef := p, materialRef := Some (u1\<lparr> uProgress := p \<rparr>) \<rparr>))"

definition Foliage_frames :: "(TreeMorphState \<times> real) list \<Rightarrow> Foliage_state \<Rightarrow> Foliage_state" where
  "Foliage_frames fs s = fold (\<lambda>(state, delta). Foliage_useFrame state delta) fs s"

text \<open>The position of a foliage point in the vertex shader, before the breathing offsets.\<close>

definition shaderMorph :: "real \<Rightarrow> vec3 \<Rightarrow> vec3 \<Rightarrow> vec3" where
  "shaderMorph uProgress' aScatterPos aTreePos = mix aScatterPos aTreePos (easeInOutCubic uProgress')"

section \<open>App.tsx\<close>

text \<open>The initial value of \<open>useState\<close> in \<open>App\<close>, handed down as the \<open>state\<close> prop.\<close>

definition App_initial_treeState :: TreeMorphState where
  "App_initial_treeState = TREE_SHAPE"

text \<open>
  The two values every frame callback computes before it moves the progress: the target
  (\<open>state === TreeMorphState.TREE_SHAPE ? 1.0 : 0.0\<close>) and, in \<open>OrnamentGroup\<close>, the
  rate (\<open>type === 'BOX' ? 1.2 : 1.8\<close>).
\<close>

definition target_of :: "TreeMorphState \<Rightarrow> real" where
  "target_of state = (if state = TREE_SHAPE then 1.0 else 0.0)"

definition lerpSpeed_of :: "OrnamentType \<Rightarrow> real" where
  "lerpSpeed_of type = (if type = BOX then 1.2 else 1.8)"

text \<open>The two palettes that \<open>Ornaments\<close> hands to its groups.\<close>

definition giftPalette :: "string list" where
  "giftPalette = [''#8a0000'', ''#8B4513'', ''#F5F5F5'', ''#D4AF37'', ''#D4AF37'', ''#064e3b'']"

definition spherePalette :: "string list" where
  "spherePalette = [''#ffc125'', ''#ffc125'', ''#ffc125'', ''#8a0000'', ''#ffffff'']"

section \<open>Special values: overflow, division by zero and NaN\<close>

text \<open>
  A JavaScript number is a binary64 value: a finite number, one of the two zeros, one
  of the two infinities, or \<open>NaN\<close>. \<open>Fin 0\<close> is \<open>+0\<close> and \<open>NZero\<close> is \<open>-0\<close>. The type
  below has these values, and its operations follow IEEE 754 wherever a special value
  comes in or goes out: an exact result whose magnitude reaches \<open>OVERFLOW\<close>
  (\<open>2^1024 - 2^970\<close>) is an infinity, one between \<open>MAX_VALUE\<close> and \<open>OVERFLOW\<close> is
  \<open>MAX_VALUE\<close>, one of magnitude at most \<open>UNDERFLOW\<close> (\<open>2^-1075\<close>) is a zero, and a zero
  has the sign the standard gives it. The rounding of the other finite results to 53
  bits is not modelled: they are exact.
\<close>

definition MAX_VALUE :: real where
  "MAX_VALUE = (2 ^ 53 - 1) * 2 ^ 971"

definition OVERFLOW :: real where
  "OVERFLOW = 2 ^ 1024 - 2 ^ 970"

definition UNDERFLOW :: real where
  "UNDERFLOW = 1 / 2 ^ 1075"

datatype jsnum = Fin real | NZero | PInf | NInf | NaN

fun isFinite :: "jsnum \<Rightarrow> bool" where
  "isFinite (Fin a) = True"
| "isFinite NZero = True"
| "isFinite _ = False"

fun val :: "jsnum \<Rightarrow> real" where
  "val (Fin a) = a"
| "val _ = 0"

fun negative :: "jsnum \<Rightarrow> bool" where
  "negative (Fin a) = (a < 0)"
| "negative NZero = True"
| "negative NInf = True"
| "negative _ = False"

text \<open>The result of an operation whose exact value is \<open>r \<noteq> 0\<close>.\<close>

definition zero_js :: "bool \<Rightarrow> jsnum" where
  "zero_js neg = (if neg then NZero else Fin 0)"

definition inf_js :: "bool \<Rightarrow> jsnum" where
  "inf_js neg = (if neg then NInf else PInf)"

definition round_js :: "real \<Rightarrow> jsnum" where
  "round_js r =
     (if OVERFLOW \<le> \<bar>r\<bar> then inf_js (r < 0)
      else if MAX_VALUE < \<bar>r\<bar> then Fin (if r < 0 then - MAX_VALUE else MAX_VALUE)
      else if \<bar>r\<bar> \<le> UNDERFLOW then zero_js (r < 0)
      else Fin r)"

fun jneg :: "jsnum \<Rightarrow> jsnum" where
  "jneg (Fin a) = (if a = 0 then NZero else Fin (- a))"
| "jneg NZero = Fin 0"
| "jneg PInf = NInf"
| "jneg NInf = PInf"
| "jneg NaN = NaN"

definition jadd :: "jsnum \<Rightarrow> jsnum \<Rightarrow> jsnum" where
  "jadd a b =
     (if a = NaN \<or> b = NaN then NaN
      else if isFinite a \<and> isFinite b then
        (if val a + val b = 0 then zero_js (a = NZero \<and> b = NZero)
         else round_js (val a + val b))
      else if isFinite a then b
      else if isFinite b then a
      else if a = b then a
      else NaN)"

definition jmul :: "jsnum \<Rightarrow> jsnum \<Rightarrow> jsnum" where
  "jmul a b =
     (if a = NaN \<or> b = NaN then NaN
      else if isFinite a \<and> isFinite b then
        (if val a * val b = 0 then zero_js (negative a \<noteq> negative b)
         else round_js (val a * val b))
      else if (isFinite a \<and> val a = 0) \<or> (isFinite b \<and> val b = 0) then NaN
      else inf_js (negative a \<noteq> negative b))"

definition jdiv :: "jsnum \<Rightarrow> jsnum \<Rightarrow> jsnum" where
  "jdiv a b =
     (if a = NaN \<or> b = NaN then NaN
      else if isFinite a \<and> isFinite b then
        (if val b = 0 then
           (if val a = 0 then NaN else inf_js (negative a \<noteq> negative b))
         else if val a = 0 then zero_js (negative a \<noteq> negative b)
         else round_js (val a / val b))
      else if isFinite a then zero_js (negative a \<noteq> negative b)
      else if isFinite b then inf_js (negative a \<noteq> negative b)
      else NaN)"

text \<open>
  \<open>Math.sin\<close>, \<open>Math.cos\<close>, \<open>Math.acos\<close>, \<open>Math.sqrt\<close> and \<open>Math.cbrt\<close>: \<open>NaN\<close> outside
  their domain and at an infinity where the function has no limit.
\<close>

fun jsin :: "jsnum \<Rightarrow> jsnum" where
  "jsin (Fin a) = Fin (sin a)"
| "jsin NZero = NZero"
| "jsin _ = NaN"

fun jcos :: "jsnum \<Rightarrow> jsnum" where
  "jcos (Fin a) = Fin (cos a)"
| "jcos NZero = Fin 1"
| "jcos _ = NaN"

fun jacos :: "jsnum \<Rightarrow> jsnum" where
  "jacos (Fin a) = (if - 1 \<le> a \<and> a \<le> 1 then Fin (arccos a) else NaN)"
| "jacos NZero = Fin (arccos 0)"
| "jacos _ = NaN"

fun jsqrt :: "jsnum \<Rightarrow> jsnum" where
  "jsqrt (Fin a) = (if a < 0 then NaN else Fin (sqrt a))"
| "jsqrt NZero = NZero"
| "jsqrt PInf = PInf"
| "jsqrt _ = NaN"

fun jcbrt :: "jsnum \<Rightarrow> jsnum" where
  "jcbrt (Fin a) = Fin (root 3 a)"
| "jcbrt x = x"

text \<open>The operations carry the usual symbols, so that the generators read as in the source.\<close>

instantiation jsnum :: "{plus, minus, uminus, times, inverse}"
begin

definition plus_jsnum :: "jsnum \<Rightarrow> jsnum \<Rightarrow> jsnum" where
  "plus_jsnum a b = jadd a b"

definition minus_jsnum :: "jsnum \<Rightarrow> jsnum \<Rightarrow> jsnum" where
  "minus_jsnum a b = jadd a (jneg b)"

definition uminus_jsnum :: "jsnum \<Rightarrow> jsnum" where
  "uminus_jsnum a = jneg a"

definition times_jsnum :: "jsnum \<Rightarrow> jsnum \<Rightarrow> jsnum" where
  "times_jsnum a b = jmul a b"

definition divide_jsnum :: "jsnum \<Rightarrow> jsnum \<Rightarrow> jsnum" where
  "divide_jsnum a b = jdiv a b"

definition inverse_jsnum :: "jsnum \<Rightarrow> jsnum" where
  "inverse_jsnum a = jdiv (Fin 1) a"

instance ..

end

text \<open>
  The three generators of \<open>utils/math.ts\<close> over this type, each as the runtime calls it:
  with its arguments and the stream of \<open>Math.random()\<close>, returning its point and the
  stream it leaves. The draws are finite; the arguments are any numbers. The body of
  \<open>getTreeSpiralPoint\<close> has no call of \<open>Math.random()\<close>.
\<close>

type_synonym jsvec3 = "jsnum \<times> jsnum \<times> jsnum"

definition getRandomSpherePoint_js :: "jsnum \<Rightarrow> rng \<Rightarrow> jsvec3 \<times> rng" where
  "getRandomSpherePoint_js radius g =
     (let (u, g1) = random g;
          (v, g2) = random g1;
          theta = Fin 2 * Fin pi * Fin u;
          phi = jacos (Fin 2 * Fin v - Fin 1);
          (w, g3) = random g2;
          r = jcbrt (Fin w) * radius;
          x = r * jsin phi * jcos theta;
          y = r * jsin phi * jsin theta;
          z = r * jcos phi
      in ((x, y, z), g3))"

definition getTreePoint_js :: "jsnum \<Rightarrow> jsnum \<Rightarrow> jsnum \<Rightarrow> rng \<Rightarrow> jsvec3 \<times> rng" where
  "getTreePoint_js height radiusBase yOffset g =
     (let (h, g1) = random g;
          y = Fin h * height;
          currentRadius = (Fin 1 - Fin h) * radiusBase;
          (a, g2) = random g1;
          angle = Fin a * Fin pi * Fin 2;
          (s, g3) = random g2;
          r = jsqrt (Fin s) * currentRadius;
          x = r * jcos angle;
          z = r * jsin angle
      in ((x, y + yOffset, z), g3))"

definition getTreeSpiralPoint_js ::
  "jsnum \<Rightarrow> jsnum \<Rightarrow> jsnum \<Rightarrow> jsnum \<Rightarrow> jsnum \<Rightarrow> rng \<Rightarrow> jsvec3 \<times> rng" where
  "getTreeSpiralPoint_js t totalPoints height radiusBase yOffset g =
     (let hRatio = t / totalPoints;
          y = hRatio * height + yOffset;
          r = (Fin 1 - hRatio) * radiusBase;
          angle = t * Fin 2.39996;
          x = r * jcos angle;
          z = r * jsin angle
      in ((x, y, z), g))"

text \<open>
  A point is finite when its three components are. A number is in range when it is
  finite and a binary64 magnitude. \<open>near r x\<close>: the number \<open>x\<close> is in range and lies
  between \<open>0\<close> and the exact value \<open>r\<close>.
\<close>

definition finite_point :: "jsvec3 \<Rightarrow> bool" where
  "finite_point p = (case p of (x, y, z) \<Rightarrow> isFinite x \<and> isFinite y \<and> isFinite z)"

definition in_range :: "jsnum \<Rightarrow> bool" where
  "in_range x \<longleftrightarrow> isFinite x \<and> \<bar>val x\<bar> \<le> MAX_VALUE"

definition near :: "real \<Rightarrow> jsnum \<Rightarrow> bool" where
  "near r x \<longleftrightarrow> in_range x \<and> \<bar>val x\<bar> \<le> \<bar>r\<bar> \<and> 0 \<le> val x * r"

section \<open>The ease and the blend at the two ends\<close>

lemma cube_le_one: "(x::real) \<le> 1 \<Longrightarrow> x ^ 3 \<le> 1"
proof (cases "0 \<le> x")
  case True
  assume "x \<le> 1"
  with True show ?thesis by (simp add: power_le_one)
next
  case False
  then have "x ^ 3 < 0" by (simp add: power3_eq_cube mult_less_0_iff zero_less_mult_iff)
  then show ?thesis by linarith
qed

lemma ease_low: "x < 1/2 \<Longrightarrow> easeInOutCubic x = 4 * x ^ 3"
  by (simp add: easeInOutCubic_def power3_eq_cube)

lemma ease_high: "1/2 \<le> x \<Longrightarrow> easeInOutCubic x = 1 - (2 - 2 * x) ^ 3 / 2"
  by (simp add: easeInOutCubic_def)

lemma ease_mono:
  assumes "0 \<le> s" "s \<le> t" "t \<le> 1"
  shows "easeInOutCubic s \<le> easeInOutCubic t"
proof -
  consider (low) "t < 1/2" | (high) "1/2 \<le> s" | (mixed) "s < 1/2" "1/2 \<le> t"
    using assms by linarith
  then show ?thesis
  proof cases
    case low
    then have "s < 1/2" using assms by simp
    moreover have "s ^ 3 \<le> t ^ 3" using assms by (intro power_mono) auto
    ultimately show ?thesis using low by (simp add: ease_low)
  next
    case high
    then have "1/2 \<le> t" using assms by simp
    moreover have "(2 - 2 * t) ^ 3 \<le> (2 - 2 * s) ^ 3" using assms by (intro power_mono) auto
    ultimately show ?thesis using high by (simp add: ease_high)
  next
    case mixed
    have "s ^ 3 \<le> (1/2) ^ 3" using assms mixed by (intro power_mono) auto
    then have a: "4 * s ^ 3 \<le> 1/2" by (simp add: power3_eq_cube)
    have "(2 - 2 * t) ^ 3 \<le> 1" using mixed by (intro cube_le_one) simp
    then have b: "1/2 \<le> 1 - (2 - 2 * t) ^ 3 / 2" by simp
    show ?thesis using a b mixed by (simp add: ease_low ease_high)
  qed
qed

lemma ease_eq_0: "easeInOutCubic p = 0 \<longleftrightarrow> p = 0"
proof (cases "p < 1/2")
  case True
  then show ?thesis by (simp add: ease_low)
next
  case False
  then have "(2 - 2 * p) ^ 3 \<le> 1" by (intro cube_le_one) simp
  then have "easeInOutCubic p \<noteq> 0" using False by (simp add: ease_high)
  then show ?thesis using False by auto
qed

lemma ease_eq_1: "easeInOutCubic p = 1 \<longleftrightarrow> p = 1"
proof (cases "p < 1/2")
  case True
  then have "p ^ 3 \<le> (1/2) ^ 3 \<or> p < 0" by (cases "0 \<le> p") (auto intro!: power_mono)
  moreover have "p < 0 \<Longrightarrow> p ^ 3 < 0"
    by (simp add: power3_eq_cube mult_less_0_iff zero_less_mult_iff)
  ultimately have "4 * p ^ 3 < 1" by (auto simp: power3_eq_cube)
  then show ?thesis using True by (simp add: ease_low)
next
  case False
  then show ?thesis by (simp add: ease_high)
qed

lemma lerp_eq_left: "a \<noteq> b \<Longrightarrow> lerp a b e = a \<longleftrightarrow> e = 0"
proof -
  assume ab: "a \<noteq> b"
  have "lerp a b e - a = e * (b - a)" by (simp add: lerp_def algebra_simps)
  then have "lerp a b e = a \<longleftrightarrow> e * (b - a) = 0" by auto
  then show ?thesis using ab by simp
qed

lemma lerp_eq_right: "a \<noteq> b \<Longrightarrow> lerp a b e = b \<longleftrightarrow> e = 1"
proof -
  assume ab: "a \<noteq> b"
  have "lerp a b e - b = (1 - e) * (a - b)" by (simp add: lerp_def algebra_simps)
  then have "lerp a b e = b \<longleftrightarrow> (1 - e) * (a - b) = 0" by auto
  then show ?thesis using ab by simp
qed

text \<open>
  Claim C10. The cubic ease is \<open>0\<close> at \<open>0\<close> and \<open>1\<close> at \<open>1\<close> and does not decrease on
  \<open>[0, 1]\<close>. Hence the blend of a scatter and a tree coordinate by the eased progress is
  the scatter coordinate at progress \<open>0\<close> and the tree coordinate at progress \<open>1\<close>, in
  the host-side \<open>lerp\<close> and in the shader's \<open>mix\<close> alike; and where the two coordinates
  differ, these are the only values of the progress at which it is.
\<close>

theorem ease_endpoints_monotone_blend:
  "easeInOutCubic 0 = 0 \<and> easeInOutCubic 1 = 1 \<and>
   (\<forall>s t. 0 \<le> s \<and> s \<le> t \<and> t \<le> 1 \<longrightarrow> easeInOutCubic s \<le> easeInOutCubic t) \<and>
   (\<forall>a b. lerp a b (easeInOutCubic 0) = a \<and> lerp a b (easeInOutCubic 1) = b) \<and>
   (\<forall>a b p. a \<noteq> b \<longrightarrow>
      (lerp a b (easeInOutCubic p) = a \<longleftrightarrow> p = 0) \<and> (lerp a b (easeInOutCubic p) = b \<longleftrightarrow> p = 1)) \<and>
   (\<forall>sp tp. shaderMorph 0 sp tp = sp \<and> shaderMorph 1 sp tp = tp)"
proof -
  have e0: "easeInOutCubic 0 = 0" and e1: "easeInOutCubic 1 = 1"
    by (simp_all add: easeInOutCubic_def)
  have m: "\<forall>s t. 0 \<le> s \<and> s \<le> t \<and> t \<le> 1 \<longrightarrow> easeInOutCubic s \<le> easeInOutCubic t"
    using ease_mono by blast
  have l: "\<forall>a b. lerp a b (easeInOutCubic 0) = a \<and> lerp a b (easeInOutCubic 1) = b"
    by (simp add: e0 e1 lerp_def)
  have i: "\<forall>a b p. a \<noteq> b \<longrightarrow>
      (lerp a b (easeInOutCubic p) = a \<longleftrightarrow> p = 0) \<and> (lerp a b (easeInOutCubic p) = b \<longleftrightarrow> p = 1)"
    by (simp add: lerp_eq_left lerp_eq_right ease_eq_0 ease_eq_1)
  have s: "\<forall>sp tp. shaderMorph 0 sp tp = sp \<and> shaderMorph 1 sp tp = tp"
    by (simp add: shaderMorph_def mix_def e0 e1 split: prod.splits)
  from e0 e1 m l i s show ?thesis by blast
qed

theorem ease_endpoints_monotone_blend_witness:
  "(0::real) \<le> 1/4 \<and> (1/4::real) \<le> 3/4 \<and> (3/4::real) \<le> 1 \<and>
   easeInOutCubic (1/4) \<le> easeInOutCubic (3/4) \<and> (2::real) \<noteq> 5 \<and>
   lerp 2 5 (easeInOutCubic 0) = 2 \<and> lerp 2 5 (easeInOutCubic 1) = 5"
proof -
  note T = ease_endpoints_monotone_blend
  have mono: "\<And>s t. 0 \<le> s \<Longrightarrow> s \<le> t \<Longrightarrow> t \<le> 1 \<Longrightarrow> easeInOutCubic s \<le> easeInOutCubic t"
    using T by blast
  have "easeInOutCubic (1/4) \<le> easeInOutCubic (3/4)"
    by (rule mono) simp_all
  moreover have "lerp 2 5 (easeInOutCubic 0) = 2" "lerp 2 5 (easeInOutCubic 1) = 5"
    using T by blast+
  ultimately show ?thesis by simp
qed

section \<open>The rotation of a formed ornament\<close>

text \<open>
  At the blend factor of a fully formed group the rotation of an item at time \<open>0\<close> and at
  time \<open>1\<close> differ: the rotation is not constant on every axis.
\<close>

theorem spin_every_axis_counterexample:
  "itemRotation \<lparr> item_id = 0, item_type = SPHERE, scatter = (0, 0, 0), tree = (0, 0, 0),
       scale = 1, rotation = (0, 0, 0), color = Some ''#ffc125'', speed = 1/5, offset = 0,
       scaleVector = (1, 1, 1) \<rparr> (easeInOutCubic 1) 0
   \<noteq> itemRotation \<lparr> item_id = 0, item_type = SPHERE, scatter = (0, 0, 0), tree = (0, 0, 0),
       scale = 1, rotation = (0, 0, 0), color = Some ''#ffc125'', speed = 1/5, offset = 0,
       scaleVector = (1, 1, 1) \<rparr> (easeInOutCubic 1) 1"
  by (simp add: itemRotation_def)

text \<open>
  Claim C4, as the code has it. The spin about the x axis carries the factor
  \<open>1 - easeT\<close>; the spin about the y axis does not, and the z angle has no spin. So at
  \<open>easeT = 1\<close> the angles about x and z are those of the record at every time, and the
  angle about y still advances by \<open>0.1\<close> per unit of time.
\<close>

theorem spin_fades_on_x_axis:
  "obj_rotation (frameItem easeT time item tmp) =
     (fst (rotation item) + time * 0.2 * (1 - easeT),
      fst (snd (rotation item)) + time * 0.1,
      snd (snd (rotation item))) \<and>
   obj_rotation (frameItem (easeInOutCubic 1) time item tmp) =
     (fst (rotation item), fst (snd (rotation item)) + time * 0.1, snd (snd (rotation item)))"
  by (simp add: frameItem_def itemRotation_def easeInOutCubic_def Let_def split: prod.splits)

section \<open>The morph progress\<close>

text \<open>
  One frame moves the progress by the fraction \<open>k * dt\<close> of its distance to the target.
  While that fraction is at most \<open>1\<close> the new value lies between the old one and the
  target.
\<close>

lemma step_between:
  fixes p tg c :: real
  assumes "0 \<le> c" "c \<le> 1"
  shows "min p tg \<le> p + (tg - p) * c \<and> p + (tg - p) * c \<le> max p tg"
proof -
  define d where "d = (tg - p) * c"
  have eq: "p + (tg - p) * c = p + d" by (simp add: d_def)
  show ?thesis
  proof (cases "p \<le> tg")
    case True
    then have "0 \<le> d" using assms by (simp add: d_def)
    moreover have "(tg - p) * c \<le> (tg - p) * 1"
      using True assms by (intro mult_left_mono) auto
    then have "d \<le> tg - p" by (simp add: d_def)
    ultimately show ?thesis unfolding eq using True by linarith
  next
    case False
    then have "0 \<le> (p - tg) * c" using assms by simp
    then have "d \<le> 0" by (simp add: d_def algebra_simps)
    moreover have "(p - tg) * c \<le> (p - tg) * 1"
      using False assms by (intro mult_left_mono) auto
    then have "tg - p \<le> d" by (simp add: d_def algebra_simps)
    ultimately show ?thesis unfolding eq using False by linarith
  qed
qed

lemma Foliage_useFrame_progress:
  "progressRef (Foliage_useFrame st dt s) =
     (if materialRef s = None then progressRef s
      else progressRef s + (target_of st - progressRef s) * (1.5 * dt))"
  by (simp add: Foliage_useFrame_def target_of_def Let_def split: option.splits)

lemma Foliage_step_between:
  assumes "0 \<le> dt" "1.5 * dt \<le> 1"
  shows "min (progressRef s) (target_of st) \<le> progressRef (Foliage_useFrame st dt s) \<and>
         progressRef (Foliage_useFrame st dt s) \<le> max (progressRef s) (target_of st)"
proof (cases "materialRef s = None")
  case True
  then show ?thesis by (simp add: Foliage_useFrame_progress)
next
  case False
  have "0 \<le> 1.5 * dt" using assms by simp
  from step_between[OF this assms(2), of "progressRef s" "target_of st"] False
  show ?thesis by (simp add: Foliage_useFrame_progress)
qed

lemma target_of_range: "0 \<le> target_of st \<and> target_of st \<le> 1"
  by (simp add: target_of_def)

lemma Foliage_step_range:
  assumes "0 \<le> dt" "1.5 * dt \<le> 1" "0 \<le> progressRef s" "progressRef s \<le> 1"
  shows "0 \<le> progressRef (Foliage_useFrame st dt s) \<and> progressRef (Foliage_useFrame st dt s) \<le> 1"
  using Foliage_step_between[OF assms(1,2), of s st] target_of_range[of st] assms(3,4)
  by linarith

lemma Foliage_frames_range:
  "(\<forall>(st, dt) \<in> set fs. 0 \<le> dt \<and> 1.5 * dt \<le> 1) \<Longrightarrow> 0 \<le> progressRef s \<Longrightarrow> progressRef s \<le> 1 \<Longrightarrow>
   0 \<le> progressRef (Foliage_frames fs s) \<and> progressRef (Foliage_frames fs s) \<le> 1"
proof (induction fs arbitrary: s)
  case Nil
  then show ?case by (simp add: Foliage_frames_def)
next
  case (Cons f fs)
  obtain st dt where f: "f = (st, dt)" by (cases f)
  with Cons.prems have dt: "0 \<le> dt" "1.5 * dt \<le> 1" by auto
  have r: "0 \<le> progressRef (Foliage_useFrame st dt s)" "progressRef (Foliage_useFrame st dt s) \<le> 1"
    using Foliage_step_range[OF dt Cons.prems(2,3)] by auto
  have "Foliage_frames (f # fs) s = Foliage_frames fs (Foliage_useFrame st dt s)"
    by (simp add: Foliage_frames_def f)
  moreover have "\<forall>(st, dt) \<in> set fs. 0 \<le> dt \<and> 1.5 * dt \<le> 1" using Cons.prems(1) by simp
  ultimately show ?case using Cons.IH[OF _ r] by simp
qed

lemma OrnamentGroup_useFrame_progress:
  "orn_progressRef (OrnamentGroup_useFrame st type tm dt s) =
     (if meshRef s = None then orn_progressRef s
      else orn_progressRef s + (target_of st - orn_progressRef s) * (lerpSpeed_of type * dt))"
  by (simp add: OrnamentGroup_useFrame_def target_of_def lerpSpeed_of_def Let_def
           split: option.splits prod.splits)

lemma OrnamentGroup_step_between:
  assumes "0 \<le> dt" "lerpSpeed_of type * dt \<le> 1"
  shows "min (orn_progressRef s) (target_of st) \<le> orn_progressRef (OrnamentGroup_useFrame st type tm dt s) \<and>
         orn_progressRef (OrnamentGroup_useFrame st type tm dt s) \<le> max (orn_progressRef s) (target_of st)"
proof (cases "meshRef s = None")
  case True
  then show ?thesis by (simp add: OrnamentGroup_useFrame_progress)
next
  case False
  have "0 \<le> lerpSpeed_of type * dt" using assms by (simp add: lerpSpeed_of_def)
  from step_between[OF this assms(2), of "orn_progressRef s" "target_of st"] False
  show ?thesis by (simp add: OrnamentGroup_useFrame_progress)
qed

lemma OrnamentGroup_frames_range:
  "(\<forall>(st, tm, dt) \<in> set fs. 0 \<le> dt \<and> lerpSpeed_of type * dt \<le> 1) \<Longrightarrow>
   0 \<le> orn_progressRef s \<Longrightarrow> orn_progressRef s \<le> 1 \<Longrightarrow>
   0 \<le> orn_progressRef (OrnamentGroup_frames type fs s) \<and>
   orn_progressRef (OrnamentGroup_frames type fs s) \<le> 1"
proof (induction fs arbitrary: s)
  case Nil
  then show ?case by (simp add: OrnamentGroup_frames_def)
next
  case (Cons f fs)
  obtain st tm dt where f: "f = (st, tm, dt)" by (cases f)
  with Cons.prems have dt: "0 \<le> dt" "lerpSpeed_of type * dt \<le> 1" by auto
  have r: "0 \<le> orn_progressRef (OrnamentGroup_useFrame st type tm dt s)"
          "orn_progressRef (OrnamentGroup_useFrame st type tm dt s) \<le> 1"
    using OrnamentGroup_step_between[OF dt, of s st tm] target_of_range[of st] Cons.prems(2,3)
    by linarith+
  have "OrnamentGroup_frames type (f # fs) s =
        OrnamentGroup_frames type fs (OrnamentGroup_useFrame st type tm dt s)"
    by (simp add: OrnamentGroup_frames_def f)
  moreover have "\<forall>(st, tm, dt) \<in> set fs. 0 \<le> dt \<and> lerpSpeed_of type * dt \<le> 1"
    using Cons.prems(1) by simp
  ultimately show ?case using Cons.IH[OF _ r] by simp
qed

text \<open>
  A mounted foliage group at its initial progress \<open>0\<close>, target \<open>TREE_SHAPE\<close>, and one frame
  of one second: the progress is \<open>1.5\<close>, beyond the target and outside \<open>[0, 1]\<close>.
\<close>

theorem progress_overshoot_counterexample:
  "\<not> progressRef (Foliage_useFrame TREE_SHAPE 1 (Foliage_mount Foliage_init)) \<le> 1"
  by (simp add: Foliage_useFrame_def Foliage_mount_def Foliage_init_def FoliageMaterial_def Let_def)

text \<open>
  Claim C1, as the code has it. For every sequence of frames in which each \<open>dt\<close> is
  non-negative and at most \<open>1 / k\<close> (\<open>k\<close> is \<open>1.5\<close> for the foliage, \<open>1.8\<close> for the spheres,
  \<open>1.2\<close> for the boxes), with the target switching freely between frames, a progress that
  starts in \<open>[0, 1]\<close> stays in \<open>[0, 1]\<close>, and after each frame it lies between its value
  before the frame and the target of the frame. The callbacks do not bound \<open>dt\<close>.
\<close>

theorem progress_bounded_for_small_steps:
  "(\<forall>fs s. (\<forall>(st, dt) \<in> set fs. 0 \<le> dt \<and> 1.5 * dt \<le> 1) \<and> 0 \<le> progressRef s \<and> progressRef s \<le> 1 \<longrightarrow>
       0 \<le> progressRef (Foliage_frames fs s) \<and> progressRef (Foliage_frames fs s) \<le> 1) \<and>
   (\<forall>st dt s. 0 \<le> dt \<and> 1.5 * dt \<le> 1 \<longrightarrow>
       min (progressRef s) (target_of st) \<le> progressRef (Foliage_useFrame st dt s) \<and>
       progressRef (Foliage_useFrame st dt s) \<le> max (progressRef s) (target_of st)) \<and>
   (\<forall>type fs s. (\<forall>(st, tm, dt) \<in> set fs. 0 \<le> dt \<and> lerpSpeed_of type * dt \<le> 1) \<and>
       0 \<le> orn_progressRef s \<and> orn_progressRef s \<le> 1 \<longrightarrow>
       0 \<le> orn_progressRef (OrnamentGroup_frames type fs s) \<and>
       orn_progressRef (OrnamentGroup_frames type fs s) \<le> 1) \<and>
   (\<forall>type st tm dt s. 0 \<le> dt \<and> lerpSpeed_of type * dt \<le> 1 \<longrightarrow>
       min (orn_progressRef s) (target_of st) \<le> orn_progressRef (OrnamentGroup_useFrame st type tm dt s) \<and>
       orn_progressRef (OrnamentGroup_useFrame st type tm dt s) \<le> max (orn_progressRef s) (target_of st))"
proof -
  have A: "\<forall>fs s. (\<forall>(st, dt) \<in> set fs. 0 \<le> dt \<and> 1.5 * dt \<le> 1) \<and> 0 \<le> progressRef s \<and> progressRef s \<le> 1 \<longrightarrow>
       0 \<le> progressRef (Foliage_frames fs s) \<and> progressRef (Foliage_frames fs s) \<le> 1"
    using Foliage_frames_range by blast
  have B: "\<forall>st dt s. 0 \<le> dt \<and> 1.5 * dt \<le> 1 \<longrightarrow>
       min (progressRef s) (target_of st) \<le> progressRef (Foliage_useFrame st dt s) \<and>
       progressRef (Foliage_useFrame st dt s) \<le> max (progressRef s) (target_of st)"
    using Foliage_step_between by blast
  have C: "\<forall>type fs s. (\<forall>(st, tm, dt) \<in> set fs. 0 \<le> dt \<and> lerpSpeed_of type * dt \<le> 1) \<and>
       0 \<le> orn_progressRef s \<and> orn_progressRef s \<le> 1 \<longrightarrow>
       0 \<le> orn_progressRef (OrnamentGroup_frames type fs s) \<and>
       orn_progressRef (OrnamentGroup_frames type fs s) \<le> 1"
    using OrnamentGroup_frames_range by blast
  have D: "\<forall>type st tm dt s. 0 \<le> dt \<and> lerpSpeed_of type * dt \<le> 1 \<longrightarrow>
       min (orn_progressRef s) (target_of st) \<le> orn_progressRef (OrnamentGroup_useFrame st type tm dt s) \<and>
       orn_progressRef (OrnamentGroup_useFrame st type tm dt s) \<le> max (orn_progressRef s) (target_of st)"
    using OrnamentGroup_step_between by blast
  show ?thesis by (rule conjI[OF A conjI[OF B conjI[OF C D]]])
qed

theorem progress_bounded_for_small_steps_witness:
  "(0::real) \<le> 1/60 \<and> 1.5 * (1/60 :: real) \<le> 1 \<and> (0::real) \<le> 1/2 \<and> 1.5 * (1/2 :: real) \<le> 1 \<and>
   0 \<le> progressRef (Foliage_mount Foliage_init) \<and> progressRef (Foliage_mount Foliage_init) \<le> 1 \<and>
   0 \<le> progressRef (Foliage_frames [(TREE_SHAPE, 1/60), (SCATTERED, 1/2)] (Foliage_mount Foliage_init)) \<and>
   progressRef (Foliage_frames [(TREE_SHAPE, 1/60), (SCATTERED, 1/2)] (Foliage_mount Foliage_init)) \<le> 1 \<and>
   progressRef (Foliage_frames [(TREE_SHAPE, 1/60), (SCATTERED, 1/2)] (Foliage_mount Foliage_init)) = 1/160 \<and>
   min (progressRef (Foliage_mount Foliage_init)) (target_of TREE_SHAPE)
     \<le> progressRef (Foliage_useFrame TREE_SHAPE (1/60) (Foliage_mount Foliage_init)) \<and>
   progressRef (Foliage_useFrame TREE_SHAPE (1/60) (Foliage_mount Foliage_init))
     \<le> max (progressRef (Foliage_mount Foliage_init)) (target_of TREE_SHAPE) \<and>
   lerpSpeed_of SPHERE * (1/60) \<le> 1 \<and>
   orn_progressRef (OrnamentGroup_mount 0 (OrnamentGroup_init SPHERE 0 (1/4) None (\<lambda>n. 1/100))) = 0 \<and>
   0 \<le> orn_progressRef (OrnamentGroup_frames SPHERE [(TREE_SHAPE, 0, 1/60)]
          (OrnamentGroup_mount 0 (OrnamentGroup_init SPHERE 0 (1/4) None (\<lambda>n. 1/100)))) \<and>
   orn_progressRef (OrnamentGroup_frames SPHERE [(TREE_SHAPE, 0, 1/60)]
          (OrnamentGroup_mount 0 (OrnamentGroup_init SPHERE 0 (1/4) None (\<lambda>n. 1/100)))) \<le> 1 \<and>
   orn_progressRef (OrnamentGroup_useFrame TREE_SHAPE SPHERE 0 (1/60)
          (OrnamentGroup_mount 0 (OrnamentGroup_init SPHERE 0 (1/4) None (\<lambda>n. 1/100))))
     \<le> max (orn_progressRef (OrnamentGroup_mount 0 (OrnamentGroup_init SPHERE 0 (1/4) None (\<lambda>n. 1/100))))
           (target_of TREE_SHAPE) \<and>
   orn_progressRef (OrnamentGroup_useFrame TREE_SHAPE SPHERE 0 (1/60)
          (OrnamentGroup_mount 0 (OrnamentGroup_init SPHERE 0 (1/4) None (\<lambda>n. 1/100)))) = 3/100"
proof -
  note T = progress_bounded_for_small_steps
  let ?s = "Foliage_mount Foliage_init"
  let ?fs = "[(TREE_SHAPE, 1/60), (SCATTERED, 1/2 :: real)]"
  let ?o = "OrnamentGroup_mount 0 (OrnamentGroup_init SPHERE 0 (1/4) None (\<lambda>n. 1/100))"
  let ?os = "[(TREE_SHAPE, 0 :: real, 1/60 :: real)]"
  have dt: "(0::real) \<le> 1/60 \<and> 1.5 * (1/60 :: real) \<le> 1" by simp
  have init: "0 \<le> progressRef ?s \<and> progressRef ?s \<le> 1"
    by (simp add: Foliage_mount_def Foliage_init_def)
  have steps: "\<forall>(st, dt) \<in> set ?fs. 0 \<le> dt \<and> 1.5 * dt \<le> 1" by simp
  have a: "0 \<le> progressRef (Foliage_frames ?fs ?s) \<and> progressRef (Foliage_frames ?fs ?s) \<le> 1"
    using T init steps by blast
  have b: "progressRef (Foliage_frames ?fs ?s) = 1/160"
    by (simp add: Foliage_frames_def Foliage_useFrame_def Foliage_mount_def Foliage_init_def
          FoliageMaterial_def Let_def)
  have c: "min (progressRef ?s) (target_of TREE_SHAPE) \<le> progressRef (Foliage_useFrame TREE_SHAPE (1/60) ?s) \<and>
        progressRef (Foliage_useFrame TREE_SHAPE (1/60) ?s) \<le> max (progressRef ?s) (target_of TREE_SHAPE)"
    using T dt by blast
  have odt: "(0::real) \<le> 1/60 \<and> lerpSpeed_of SPHERE * (1/60) \<le> 1" by (simp add: lerpSpeed_of_def)
  have oinit: "orn_progressRef ?o = 0"
    by (simp add: OrnamentGroup_mount_def OrnamentGroup_init_def)
  have osteps: "\<forall>(st, tm, dt) \<in> set ?os. 0 \<le> dt \<and> lerpSpeed_of SPHERE * dt \<le> 1"
    by (simp add: lerpSpeed_of_def)
  have "0 \<le> orn_progressRef ?o \<and> orn_progressRef ?o \<le> 1" using oinit by simp
  then have d: "0 \<le> orn_progressRef (OrnamentGroup_frames SPHERE ?os ?o) \<and>
        orn_progressRef (OrnamentGroup_frames SPHERE ?os ?o) \<le> 1"
    using T osteps by blast
  have e: "orn_progressRef (OrnamentGroup_useFrame TREE_SHAPE SPHERE 0 (1/60) ?o)
        \<le> max (orn_progressRef ?o) (target_of TREE_SHAPE)"
    using T odt by blast
  have f: "orn_progressRef (OrnamentGroup_useFrame TREE_SHAPE SPHERE 0 (1/60) ?o) = 3/100"
    by (simp add: OrnamentGroup_useFrame_progress OrnamentGroup_mount_def OrnamentGroup_init_def
          target_of_def lerpSpeed_of_def)
  show ?thesis using dt init a b c odt oinit d e f by simp
qed

section \<open>The progress at construction\<close>

text \<open>
  The progress ref of the foliage starts at \<open>0\<close>; the target of the initial state of the
  application is \<open>1\<close>.
\<close>

theorem initial_progress_counterexample:
  "progressRef Foliage_init \<noteq> target_of App_initial_treeState"
  by (simp add: Foliage_init_def target_of_def App_initial_treeState_def)

text \<open>
  Claim C2, as the code has it. Every group starts its progress ref at \<open>0\<close>, whatever the
  state prop, and the \<open>uProgress\<close> uniform starts at \<open>0\<close>. The initial state of the
  application is \<open>TREE_SHAPE\<close>, whose target is \<open>1\<close>, so the scene starts scattered and
  the first frame of length \<open>dt\<close> takes the progress to \<open>k * dt\<close>.
\<close>

theorem initial_progress_is_zero:
  "progressRef Foliage_init = 0 \<and> uProgress FoliageMaterial = 0 \<and>
   orn_progressRef (OrnamentGroup_init type count scaleBase palette g) = 0 \<and>
   target_of App_initial_treeState = 1 \<and>
   progressRef (Foliage_useFrame App_initial_treeState dt (Foliage_mount Foliage_init)) = 1.5 * dt \<and>
   orn_progressRef (OrnamentGroup_useFrame App_initial_treeState type tm dt
      (OrnamentGroup_mount count (OrnamentGroup_init type count scaleBase palette g))) = lerpSpeed_of type * dt"
  by (simp add: Foliage_useFrame_progress OrnamentGroup_useFrame_progress Foliage_init_def
        FoliageMaterial_def OrnamentGroup_init_def OrnamentGroup_mount_def Foliage_mount_def
        target_of_def App_initial_treeState_def)

section \<open>Convergence of the foliage\<close>

lemma Foliage_useFrame_material:
  "materialRef s \<noteq> None \<Longrightarrow> materialRef (Foliage_useFrame st dt s) \<noteq> None"
  by (auto simp: Foliage_useFrame_def Let_def split: option.splits)

lemma Foliage_hold_formed:
  "materialRef s \<noteq> None \<Longrightarrow>
   progressRef (Foliage_frames (replicate n (TREE_SHAPE, dt)) s) =
     1 - (1 - progressRef s) * (1 - 1.5 * dt) ^ n"
proof (induction n arbitrary: s)
  case 0
  then show ?case by (simp add: Foliage_frames_def)
next
  case (Suc n)
  let ?s' = "Foliage_useFrame TREE_SHAPE dt s"
  have m: "materialRef ?s' \<noteq> None" using Suc.prems by (rule Foliage_useFrame_material)
  from Suc.prems obtain u where u: "materialRef s = Some u" by auto
  have p: "1 - progressRef ?s' = (1 - progressRef s) * (1 - 1.5 * dt)"
    by (simp add: Foliage_useFrame_progress u target_of_def algebra_simps)
  have "Foliage_frames (replicate (Suc n) (TREE_SHAPE, dt)) s =
        Foliage_frames (replicate n (TREE_SHAPE, dt)) ?s'"
    by (simp add: Foliage_frames_def)
  then show ?case using Suc.IH[OF m] p by simp
qed

lemma decay_400: "(39/40 :: real) ^ 400 < 1/10000"
proof -
  have a: "(39/40 :: real) ^ 40 < 4/11" by (simp add: power_divide)
  have b: "(4/11 :: real) ^ 10 < 1/10000" by (simp add: power_divide)
  have "(39/40 :: real) ^ 400 = ((39/40) ^ 40) ^ 10" by (simp add: power_mult [symmetric])
  also have "\<dots> \<le> (4/11) ^ 10" using a by (intro power_mono) auto
  finally show ?thesis using b by linarith
qed

text \<open>
  Claim C6. With the target held at \<open>TREE_SHAPE\<close>, \<open>400\<close> frames of \<open>dt = 1/60\<close> on a
  mounted foliage group take any progress in \<open>[0, 1]\<close> to a value above \<open>0.9999\<close> (and not
  above \<open>1\<close>).
\<close>

theorem foliage_converges_in_400_frames:
  assumes "materialRef s \<noteq> None" "0 \<le> progressRef s" "progressRef s \<le> 1"
  shows "0.9999 < progressRef (Foliage_frames (replicate 400 (TREE_SHAPE, 1/60)) s) \<and>
         progressRef (Foliage_frames (replicate 400 (TREE_SHAPE, 1/60)) s) \<le> 1"
proof -
  define q :: real where "q = (39/40) ^ 400"
  define p where "p = progressRef s"
  define r where "r = progressRef (Foliage_frames (replicate 400 (TREE_SHAPE, 1/60)) s)"
  have eq: "r = 1 - (1 - p) * q"
    using Foliage_hold_formed[OF assms(1), of 400 "1/60"] by (simp add: q_def p_def r_def)
  have q0: "0 \<le> q" by (simp add: q_def)
  have q1: "q < 1/10000" unfolding q_def by (rule decay_400)
  have "(1 - p) * q \<le> 1 * q"
    using assms q0 by (intro mult_right_mono) (auto simp: p_def)
  moreover have "0 \<le> (1 - p) * q"
    using assms q0 by (intro mult_nonneg_nonneg) (auto simp: p_def)
  ultimately have "9999/10000 < r \<and> r \<le> 1" unfolding eq using q1 by linarith
  then show ?thesis by (simp add: r_def)
qed

theorem foliage_converges_in_400_frames_witness:
  "materialRef (Foliage_mount Foliage_init) \<noteq> None \<and> 0 \<le> progressRef (Foliage_mount Foliage_init) \<and>
   progressRef (Foliage_mount Foliage_init) \<le> 1 \<and>
   0.9999 < progressRef (Foliage_frames (replicate 400 (TREE_SHAPE, 1/60)) (Foliage_mount Foliage_init))"
proof -
  have h: "materialRef (Foliage_mount Foliage_init) \<noteq> None"
    "0 \<le> progressRef (Foliage_mount Foliage_init)" "progressRef (Foliage_mount Foliage_init) \<le> 1"
    by (simp_all add: Foliage_mount_def Foliage_init_def)
  from foliage_converges_in_400_frames[OF h] h show ?thesis by blast
qed

section \<open>The records of a group\<close>

text \<open>
  Every function that draws leaves a stream of draws in \<open>[0, 1)\<close>, and a property that
  holds of the record of every iteration holds of every record of the data.
\<close>

declare buildLoop.simps [simp del]

lemma rng_ok_head: "rng_ok g \<Longrightarrow> 0 \<le> g n \<and> g n < 1"
  by (simp add: rng_ok_def)

lemma rng_ok_random: "rng_ok g \<Longrightarrow> rng_ok (snd (random g))"
  by (simp add: rng_ok_def random_def)

lemma rng_ok_getRandomSpherePoint: "rng_ok g \<Longrightarrow> rng_ok (snd (getRandomSpherePoint r g))"
  by (simp add: getRandomSpherePoint_def random_def Let_def rng_ok_def)

lemma pickColor_rng: "rng_ok g \<Longrightarrow> rng_ok (snd (pickColor palette g))"
  by (simp add: pickColor_def random_def Let_def rng_ok_def split: option.splits)

lemma scaleLogic_rng: "rng_ok g \<Longrightarrow> rng_ok (snd (scaleLogic type scaleBase c g))"
  by (simp add: scaleLogic_def random_def Let_def rng_ok_def split: OrnamentType.splits)

lemma floor_index:
  fixes c :: real
  assumes "0 \<le> c" "c < 1" "0 < n"
  shows "0 \<le> \<lfloor>c * real n\<rfloor> \<and> \<lfloor>c * real n\<rfloor> < int n"
proof -
  have "0 \<le> c * real n" using assms by simp
  moreover have "c * real n < 1 * real n" using assms by (intro mult_strict_right_mono) auto
  then have "\<lfloor>c * real n\<rfloor> < int n" by (simp add: floor_less_iff)
  ultimately show ?thesis by simp
qed

lemma pickColor_color:
  assumes "rng_ok g"
  shows "(palette = None \<or> palette = Some [] \<longrightarrow> fst (pickColor palette g) = Some ''#d4af37'') \<and>
         (\<forall>pal. palette = Some pal \<and> pal \<noteq> [] \<longrightarrow> (\<exists>c \<in> set pal. fst (pickColor palette g) = Some c))"
proof (cases palette)
  case None
  then show ?thesis by (simp add: pickColor_def)
next
  case (Some pal)
  show ?thesis
  proof (cases "pal = []")
    case True
    with Some show ?thesis by (simp add: pickColor_def)
  next
    case False
    then have n: "0 < length pal" by simp
    from floor_index[OF _ _ n, of "g 0"] rng_ok_head[OF assms, of 0]
    have k: "0 \<le> \<lfloor>g 0 * real (length pal)\<rfloor>" "\<lfloor>g 0 * real (length pal)\<rfloor> < int (length pal)"
      by auto
    then have "nat \<lfloor>g 0 * real (length pal)\<rfloor> < length pal" by linarith
    then have "pal ! nat \<lfloor>g 0 * real (length pal)\<rfloor> \<in> set pal" by (rule nth_mem)
    moreover have "fst (pickColor palette g) = Some (pal ! nat \<lfloor>g 0 * real (length pal)\<rfloor>)"
      using Some False k by (simp add: pickColor_def random_def Let_def)
    ultimately show ?thesis using Some False by auto
  qed
qed

lemma mkItem_color:
  "color (fst (mkItem type count sb palette i g)) =
     fst (pickColor palette (snd (random (snd (random (snd (getRandomSpherePoint SCATTER_RADIUS g)))))))"
  by (simp add: mkItem_def Let_def case_prod_beta)

lemma mkItem_rng: "rng_ok g \<Longrightarrow> rng_ok (snd (mkItem type count sb palette i g))"
  by (simp add: mkItem_def Let_def case_prod_beta rng_ok_random rng_ok_getRandomSpherePoint
        pickColor_rng scaleLogic_rng)

lemma buildLoop_all:
  assumes step: "\<And>j h. j < count \<Longrightarrow> rng_ok h \<Longrightarrow> P (fst (mkItem type count sb palette j h))"
  shows "rng_ok g \<Longrightarrow> \<forall>x \<in> set items. P x \<Longrightarrow>
         \<forall>x \<in> set (fst (buildLoop type count sb palette i g items)). P x"
proof (induction "count - i" arbitrary: i g items)
  case 0
  then have "\<not> i < count" by simp
  then have "buildLoop type count sb palette i g items = (items, g)"
    by (subst buildLoop.simps) simp
  then show ?case using "0.prems" by simp
next
  case (Suc k)
  then have lt: "i < count" by simp
  obtain item g' where m: "mkItem type count sb palette i g = (item, g')"
    by (cases "mkItem type count sb palette i g")
  have "P item" using step[OF lt Suc.prems(1)] m by simp
  then have items: "\<forall>x \<in> set (items @ [item]). P x" using Suc.prems(2) by simp
  have g': "rng_ok g'" using mkItem_rng[OF Suc.prems(1), of type count sb palette i] m by simp
  have k: "k = count - Suc i" using Suc.hyps(2) by simp
  have "buildLoop type count sb palette i g items =
        buildLoop type count sb palette (Suc i) g' (items @ [item])"
    using lt m by (subst buildLoop.simps) simp
  then show ?case using Suc.hyps(1)[OF k g' items] by simp
qed

lemma buildData_all:
  assumes "\<And>i g. i < count \<Longrightarrow> rng_ok g \<Longrightarrow> P (fst (mkItem type count sb palette i g))"
    and "rng_ok g" and "item \<in> set (buildData type count sb palette g)"
  shows "P item"
proof -
  have "\<forall>x \<in> set (fst (buildLoop type count sb palette 0 g [])). P x"
    by (rule buildLoop_all[where P = P]) (use assms in auto)
  then show ?thesis using assms(3) by (simp add: buildData_def)
qed

lemma scaleLogic_sphere_tiers:
  "(colorHex = Some ''#8a0000'' \<longrightarrow>
      snd (fst (scaleLogic SPHERE scaleBase colorHex g)) = scaleBase * (0.8 + g 0 * 0.4)) \<and>
   (colorHex \<noteq> Some ''#8a0000'' \<and> g 1 < 0.04 \<longrightarrow>
      snd (fst (scaleLogic SPHERE scaleBase colorHex g)) = scaleBase * (2.2 + g 2 * 0.2)) \<and>
   (colorHex \<noteq> Some ''#8a0000'' \<and> 0.04 \<le> g 1 \<and> g 1 < 0.20 \<longrightarrow>
      snd (fst (scaleLogic SPHERE scaleBase colorHex g)) = scaleBase * (1.4 + g 2 * 0.4)) \<and>
   (colorHex \<noteq> Some ''#8a0000'' \<and> 0.20 \<le> g 1 \<longrightarrow>
      snd (fst (scaleLogic SPHERE scaleBase colorHex g)) = scaleBase * (0.8 + g 0 * 0.4))"
  by (simp add: scaleLogic_def random_def Let_def numeral_2_eq_2)

lemma draw_ranges:
  assumes "rng_ok g"
  shows "0.8 \<le> 0.8 + g n * 0.4 \<and> 0.8 + g n * 0.4 < 1.2 \<and>
         2.2 \<le> 2.2 + g n * 0.2 \<and> 2.2 + g n * 0.2 < 2.4 \<and>
         1.4 \<le> 1.4 + g n * 0.4 \<and> 1.4 + g n * 0.4 < 1.8"
  using rng_ok_head[OF assms, of n] by simp

lemma buildData_one:
  "buildData type (Suc 0) sb palette g = [fst (mkItem type (Suc 0) sb palette 0 g)]"
  by (simp add: buildData_def buildLoop.simps[of _ _ _ _ 0] buildLoop.simps[of _ _ _ _ "Suc 0"]
        case_prod_beta Let_def)

lemma const_rng_ok: "rng_ok (\<lambda>n. 1/100)"
  by (simp add: rng_ok_def)

lemma drop_rng_0: "drop_rng 0 g = g"
  by (simp add: drop_rng_def)

lemma drop_rng_drop: "drop_rng a (drop_rng b g) = drop_rng (a + b) g"
  by (simp add: drop_rng_def add.assoc)

lemma random_drop: "random g = (g 0, drop_rng (Suc 0) g)"
  by (simp add: random_def drop_rng_def)

lemma rng_ok_drop: "rng_ok g \<Longrightarrow> rng_ok (drop_rng m g)"
  by (simp add: rng_ok_def drop_rng_def)

lemma sphere_point_drop: "snd (getRandomSpherePoint r g) = drop_rng 3 g"
  by (simp add: getRandomSpherePoint_def random_drop Let_def drop_rng_drop eval_nat_numeral)

lemma pickColor_drop:
  "snd (pickColor palette g) =
     drop_rng (if palette = None \<or> palette = Some [] then 0 else 1) g"
  by (auto simp: pickColor_def random_drop Let_def drop_rng_0 split: option.splits)

lemma scaleLogic_drop: "\<exists>m. snd (scaleLogic type sb c g) = drop_rng m g"
  by (cases type) (auto simp: scaleLogic_def random_drop Let_def drop_rng_drop)

lemma mkItem_snd:
  "snd (mkItem type count sb palette i g) =
     drop_rng 4 (snd (scaleLogic type sb (fst (pickColor palette (drop_rng 5 g)))
        (drop_rng (if palette = None \<or> palette = Some [] then 5 else 6) g)))"
  by (simp add: mkItem_def Let_def case_prod_beta sphere_point_drop random_drop drop_rng_drop
        pickColor_drop eval_nat_numeral)

lemma mkItem_drop: "\<exists>m. snd (mkItem type count sb palette i g) = drop_rng m g"
proof -
  let ?k = "if palette = None \<or> palette = Some [] then 5 else (6::nat)"
  let ?c = "fst (pickColor palette (drop_rng 5 g))"
  obtain m where "snd (scaleLogic type sb ?c (drop_rng ?k g)) = drop_rng m (drop_rng ?k g)"
    using scaleLogic_drop by blast
  then have "snd (mkItem type count sb palette i g) = drop_rng (4 + (m + ?k)) g"
    by (simp only: mkItem_snd drop_rng_drop)
  then show ?thesis by blast
qed

lemma mkItem_color_at:
  "color (fst (mkItem type count sb palette i g)) = fst (pickColor palette (drop_rng 5 g))"
  by (simp add: mkItem_def Let_def case_prod_beta sphere_point_drop random_drop drop_rng_drop
        eval_nat_numeral)

lemma mkItem_scale_at:
  "scale (fst (mkItem type count sb palette i g)) =
     snd (fst (scaleLogic type sb (color (fst (mkItem type count sb palette i g)))
        (drop_rng (if palette = None \<or> palette = Some [] then 5 else 6) g)))"
  by (simp add: mkItem_def Let_def case_prod_beta sphere_point_drop random_drop drop_rng_drop
        pickColor_drop eval_nat_numeral)

lemma iterRng_drop: "\<exists>m. iterRng type count sb palette i g = drop_rng m g"
proof (induction i)
  case 0
  have "iterRng type count sb palette 0 g = drop_rng 0 g" by (simp add: drop_rng_0)
  then show ?case by blast
next
  case (Suc i)
  then obtain m where m: "iterRng type count sb palette i g = drop_rng m g" by blast
  obtain k where "snd (mkItem type count sb palette i (drop_rng m g)) = drop_rng k (drop_rng m g)"
    using mkItem_drop by blast
  then have "iterRng type count sb palette (Suc i) g = drop_rng (k + m) g"
    by (simp add: m drop_rng_drop)
  then show ?case by blast
qed

lemma buildLoop_iter:
  "i \<le> count \<Longrightarrow>
   buildLoop type count sb palette i (iterRng type count sb palette i g) items =
     (items @ map (\<lambda>j. fst (mkItem type count sb palette j (iterRng type count sb palette j g)))
                [i..<count],
      iterRng type count sb palette count g)"
proof (induction "count - i" arbitrary: i items)
  case 0
  then have "i = count" by simp
  then show ?case by (subst buildLoop.simps) simp
next
  case (Suc k)
  then have lt: "i < count" by simp
  have k: "k = count - Suc i" using Suc.hyps(2) by simp
  have le: "Suc i \<le> count" using lt by simp
  let ?h = "iterRng type count sb palette i g"
  have "buildLoop type count sb palette i ?h items =
        buildLoop type count sb palette (Suc i) (iterRng type count sb palette (Suc i) g)
          (items @ [fst (mkItem type count sb palette i ?h)])"
    using lt by (subst buildLoop.simps) (simp add: case_prod_beta)
  also have "\<dots> = ((items @ [fst (mkItem type count sb palette i ?h)]) @
        map (\<lambda>j. fst (mkItem type count sb palette j (iterRng type count sb palette j g)))
            [Suc i..<count], iterRng type count sb palette count g)"
    by (rule Suc.hyps(1)[OF k le])
  finally show ?case using lt by (simp add: upt_conv_Cons)
qed

lemma buildData_map:
  "buildData type count sb palette g =
     map (\<lambda>j. fst (mkItem type count sb palette j (iterRng type count sb palette j g))) [0..<count]"
  using buildLoop_iter[of 0 count type sb palette g "[]"] by (simp add: buildData_def)

lemma buildData_nth:
  "i < count \<Longrightarrow> buildData type count sb palette g ! i =
     fst (mkItem type count sb palette i (iterRng type count sb palette i g))"
  by (simp add: buildData_map)

lemma buildData_length: "length (buildData type count sb palette g) = count"
  by (simp add: buildData_map)

text \<open>
  Claim C5. The data of a sphere group has \<open>count\<close> records. Let \<open>h\<close> be the stream as
  iteration \<open>i\<close> finds it, a suffix of the stream of the group. The colour of record \<open>i\<close>
  is the one picked with draw \<open>h 5\<close>; its scale is decided by the next three draws after
  the colour pick: the base draw \<open>b\<close>, the size roll \<open>r\<close> and the tier draw \<open>l\<close> (at \<open>h 6\<close>,
  \<open>h 7\<close>, \<open>h 8\<close>, one earlier when the palette is absent or empty and no colour is
  drawn). For the colour \<open>#8a0000\<close> the scale is \<open>scaleBase\<close> times \<open>0.8 + 0.4 b\<close>, in
  \<open>[0.8, 1.2)\<close>, whatever the roll. For any other colour a roll below \<open>0.04\<close> gives
  \<open>scaleBase\<close> times \<open>2.2 + 0.2 l\<close>, in \<open>[2.2, 2.4)\<close>; a roll in \<open>[0.04, 0.20)\<close> gives
  \<open>1.4 + 0.4 l\<close>, in \<open>[1.4, 1.8)\<close>; a roll of \<open>0.20\<close> or more gives the base range.
\<close>

theorem sphere_size_tiers:
  assumes "rng_ok g" "i < count"
  shows "let h = iterRng SPHERE count scaleBase palette i g;
             item = buildData SPHERE count scaleBase palette g ! i;
             k = (if palette = None \<or> palette = Some [] then 5 else 6);
             b = h k; r = h (k + 1); l = h (k + 2)
         in length (buildData SPHERE count scaleBase palette g) = count \<and>
            (\<exists>m. h = drop_rng m g) \<and>
            color item = fst (pickColor palette (drop_rng 5 h)) \<and>
            (color item = Some ''#8a0000'' \<longrightarrow> scale item = scaleBase * (0.8 + b * 0.4)) \<and>
            (color item \<noteq> Some ''#8a0000'' \<and> r < 0.04 \<longrightarrow>
               scale item = scaleBase * (2.2 + l * 0.2)) \<and>
            (color item \<noteq> Some ''#8a0000'' \<and> 0.04 \<le> r \<and> r < 0.20 \<longrightarrow>
               scale item = scaleBase * (1.4 + l * 0.4)) \<and>
            (color item \<noteq> Some ''#8a0000'' \<and> 0.20 \<le> r \<longrightarrow>
               scale item = scaleBase * (0.8 + b * 0.4)) \<and>
            0 \<le> r \<and> r < 1 \<and>
            0.8 \<le> 0.8 + b * 0.4 \<and> 0.8 + b * 0.4 < 1.2 \<and>
            2.2 \<le> 2.2 + l * 0.2 \<and> 2.2 + l * 0.2 < 2.4 \<and>
            1.4 \<le> 1.4 + l * 0.4 \<and> 1.4 + l * 0.4 < 1.8"
proof -
  define h where "h = iterRng SPHERE count scaleBase palette i g"
  define item where "item = buildData SPHERE count scaleBase palette g ! i"
  define k :: nat where "k = (if palette = None \<or> palette = Some [] then 5 else 6)"
  obtain m where m: "h = drop_rng m g" unfolding h_def using iterRng_drop by blast
  then have ok: "rng_ok h" using assms(1) by (simp add: rng_ok_drop)
  have it: "item = fst (mkItem SPHERE count scaleBase palette i h)"
    unfolding item_def h_def by (rule buildData_nth[OF assms(2)])
  have col: "color item = fst (pickColor palette (drop_rng 5 h))"
    unfolding it by (rule mkItem_color_at)
  have sc: "scale item = snd (fst (scaleLogic SPHERE scaleBase (color item) (drop_rng k h)))"
    unfolding it k_def by (rule mkItem_scale_at)
  note t = scaleLogic_sphere_tiers[of "color item" scaleBase "drop_rng k h"]
  have d: "drop_rng k h 0 = h k" "drop_rng k h 1 = h (k + 1)" "drop_rng k h 2 = h (k + 2)"
    by (simp_all add: drop_rng_def add.commute)
  note r0 = draw_ranges[OF ok, of k]
  note r2 = draw_ranges[OF ok, of "k + 2"]
  note r1 = rng_ok_head[OF ok, of "k + 1"]
  have "length (buildData SPHERE count scaleBase palette g) = count \<and>
            (\<exists>m. h = drop_rng m g) \<and>
            color item = fst (pickColor palette (drop_rng 5 h)) \<and>
            (color item = Some ''#8a0000'' \<longrightarrow> scale item = scaleBase * (0.8 + h k * 0.4)) \<and>
            (color item \<noteq> Some ''#8a0000'' \<and> h (k + 1) < 0.04 \<longrightarrow>
               scale item = scaleBase * (2.2 + h (k + 2) * 0.2)) \<and>
            (color item \<noteq> Some ''#8a0000'' \<and> 0.04 \<le> h (k + 1) \<and> h (k + 1) < 0.20 \<longrightarrow>
               scale item = scaleBase * (1.4 + h (k + 2) * 0.4)) \<and>
            (color item \<noteq> Some ''#8a0000'' \<and> 0.20 \<le> h (k + 1) \<longrightarrow>
               scale item = scaleBase * (0.8 + h k * 0.4)) \<and>
            0 \<le> h (k + 1) \<and> h (k + 1) < 1 \<and>
            0.8 \<le> 0.8 + h k * 0.4 \<and> 0.8 + h k * 0.4 < 1.2 \<and>
            2.2 \<le> 2.2 + h (k + 2) * 0.2 \<and> 2.2 + h (k + 2) * 0.2 < 2.4 \<and>
            1.4 \<le> 1.4 + h (k + 2) * 0.4 \<and> 1.4 + h (k + 2) * 0.4 < 1.8"
    using buildData_length[of SPHERE count scaleBase palette g] m col t r0 r1 r2
    unfolding sc d by blast
  then show ?thesis unfolding Let_def h_def item_def k_def .
qed

theorem sphere_size_tiers_witness:
  "rng_ok (\<lambda>n. 1/100) \<and> rng_ok (\<lambda>n. 1/10) \<and> rng_ok (\<lambda>n. 1/2) \<and> rng_ok (\<lambda>n. 7/10) \<and> (0::nat) < 1 \<and>
   color (buildData SPHERE 1 (1/4) (Some spherePalette) (\<lambda>n. 1/100) ! 0) = Some ''#ffc125'' \<and>
   scale (buildData SPHERE 1 (1/4) (Some spherePalette) (\<lambda>n. 1/100) ! 0) = 1/4 * (2.2 + 1/100 * 0.2) \<and>
   color (buildData SPHERE 1 (1/4) (Some spherePalette) (\<lambda>n. 1/10) ! 0) = Some ''#ffc125'' \<and>
   scale (buildData SPHERE 1 (1/4) (Some spherePalette) (\<lambda>n. 1/10) ! 0) = 1/4 * (1.4 + 1/10 * 0.4) \<and>
   color (buildData SPHERE 1 (1/4) (Some spherePalette) (\<lambda>n. 1/2) ! 0) = Some ''#ffc125'' \<and>
   scale (buildData SPHERE 1 (1/4) (Some spherePalette) (\<lambda>n. 1/2) ! 0) = 1/4 * (0.8 + 1/2 * 0.4) \<and>
   color (buildData SPHERE 1 (1/4) (Some spherePalette) (\<lambda>n. 7/10) ! 0) = Some ''#8a0000'' \<and>
   scale (buildData SPHERE 1 (1/4) (Some spherePalette) (\<lambda>n. 7/10) ! 0) = 1/4 * (0.8 + 7/10 * 0.4)"
proof -
  have ok: "rng_ok (\<lambda>n. 1/100)" "rng_ok (\<lambda>n. 1/10)" "rng_ok (\<lambda>n. 1/2)" "rng_ok (\<lambda>n. 7/10)"
    by (simp_all add: rng_ok_def)
  have lt: "(0::nat) < 1" by simp
  have pal: "Some spherePalette \<noteq> None" "Some spherePalette \<noteq> Some []"
    by (simp_all add: spherePalette_def)
  note T1 = sphere_size_tiers[OF ok(1) lt, of "1/4" "Some spherePalette"]
  note T2 = sphere_size_tiers[OF ok(2) lt, of "1/4" "Some spherePalette"]
  note T3 = sphere_size_tiers[OF ok(3) lt, of "1/4" "Some spherePalette"]
  note T4 = sphere_size_tiers[OF ok(4) lt, of "1/4" "Some spherePalette"]
  have c1: "color (buildData SPHERE 1 (1/4) (Some spherePalette) (\<lambda>n. 1/100) ! 0) = Some ''#ffc125''"
    using T1 by (simp add: Let_def pickColor_def random_def drop_rng_def spherePalette_def)
  have s1: "scale (buildData SPHERE 1 (1/4) (Some spherePalette) (\<lambda>n. 1/100) ! 0) = 1/4 * (2.2 + 1/100 * 0.2)"
    using T1 c1 pal by (auto simp: Let_def)
  have c2: "color (buildData SPHERE 1 (1/4) (Some spherePalette) (\<lambda>n. 1/10) ! 0) = Some ''#ffc125''"
    using T2 by (simp add: Let_def pickColor_def random_def drop_rng_def spherePalette_def)
  have s2: "scale (buildData SPHERE 1 (1/4) (Some spherePalette) (\<lambda>n. 1/10) ! 0) = 1/4 * (1.4 + 1/10 * 0.4)"
    using T2 c2 pal by (auto simp: Let_def)
  have c3: "color (buildData SPHERE 1 (1/4) (Some spherePalette) (\<lambda>n. 1/2) ! 0) = Some ''#ffc125''"
    using T3 by (simp add: Let_def pickColor_def random_def drop_rng_def spherePalette_def)
  have s3: "scale (buildData SPHERE 1 (1/4) (Some spherePalette) (\<lambda>n. 1/2) ! 0) = 1/4 * (0.8 + 1/2 * 0.4)"
    using T3 c3 pal by (auto simp: Let_def)
  have c4: "color (buildData SPHERE 1 (1/4) (Some spherePalette) (\<lambda>n. 7/10) ! 0) = Some ''#8a0000''"
    using T4 by (simp add: Let_def pickColor_def random_def drop_rng_def spherePalette_def)
  have s4: "scale (buildData SPHERE 1 (1/4) (Some spherePalette) (\<lambda>n. 7/10) ! 0) = 1/4 * (0.8 + 7/10 * 0.4)"
    using T4 c4 pal by (auto simp: Let_def)
  show ?thesis using ok lt c1 s1 c2 s2 c3 s3 c4 s4 by blast
qed

text \<open>
  Claim C9. With an absent or empty palette every record of a group has the default
  colour \<open>#d4af37\<close>; with a palette that is not empty the colour of every record is an
  element of the palette (never \<open>undefined\<close>).
\<close>

theorem palette_lookup_defined:
  assumes "rng_ok g" "item \<in> set (buildData type count scaleBase palette g)"
  shows "(palette = None \<or> palette = Some [] \<longrightarrow> color item = Some ''#d4af37'') \<and>
         (\<forall>pal. palette = Some pal \<and> pal \<noteq> [] \<longrightarrow> (\<exists>c \<in> set pal. color item = Some c))"
proof (rule buildData_all[where P = "\<lambda>item.
         (palette = None \<or> palette = Some [] \<longrightarrow> color item = Some ''#d4af37'') \<and>
         (\<forall>pal. palette = Some pal \<and> pal \<noteq> [] \<longrightarrow> (\<exists>c \<in> set pal. color item = Some c))", OF _ assms])
  fix i h
  assume h: "rng_ok h"
  have "rng_ok (snd (random (snd (random (snd (getRandomSpherePoint SCATTER_RADIUS h))))))"
    by (intro rng_ok_random rng_ok_getRandomSpherePoint h)
  from pickColor_color[OF this, of palette]
  show "(palette = None \<or> palette = Some [] \<longrightarrow>
           color (fst (mkItem type count scaleBase palette i h)) = Some ''#d4af37'') \<and>
         (\<forall>pal. palette = Some pal \<and> pal \<noteq> [] \<longrightarrow>
           (\<exists>c \<in> set pal. color (fst (mkItem type count scaleBase palette i h)) = Some c))"
    by (simp only: mkItem_color)
qed

theorem palette_lookup_defined_witness:
  "rng_ok (\<lambda>n. 1/100) \<and>
   hd (buildData BOX 1 (2/5) (Some []) (\<lambda>n. 1/100)) \<in> set (buildData BOX 1 (2/5) (Some []) (\<lambda>n. 1/100)) \<and>
   color (hd (buildData BOX 1 (2/5) (Some []) (\<lambda>n. 1/100))) = Some ''#d4af37'' \<and>
   hd (buildData BOX 1 (2/5) None (\<lambda>n. 1/100)) \<in> set (buildData BOX 1 (2/5) None (\<lambda>n. 1/100)) \<and>
   color (hd (buildData BOX 1 (2/5) None (\<lambda>n. 1/100))) = Some ''#d4af37'' \<and>
   hd (buildData SPHERE 1 (1/4) (Some spherePalette) (\<lambda>n. 1/100))
      \<in> set (buildData SPHERE 1 (1/4) (Some spherePalette) (\<lambda>n. 1/100)) \<and>
   (\<exists>c \<in> set spherePalette.
      color (hd (buildData SPHERE 1 (1/4) (Some spherePalette) (\<lambda>n. 1/100))) = Some c)"
proof -
  let ?g = "\<lambda>n::nat. 1/100 :: real"
  have m1: "hd (buildData BOX 1 (2/5) (Some []) ?g) \<in> set (buildData BOX 1 (2/5) (Some []) ?g)"
    and m2: "hd (buildData BOX 1 (2/5) None ?g) \<in> set (buildData BOX 1 (2/5) None ?g)"
    and m3: "hd (buildData SPHERE 1 (1/4) (Some spherePalette) ?g)
              \<in> set (buildData SPHERE 1 (1/4) (Some spherePalette) ?g)"
    by (simp_all add: buildData_one)
  have ne: "spherePalette \<noteq> []" by (simp add: spherePalette_def)
  from palette_lookup_defined[OF const_rng_ok m1]
  have c1: "color (hd (buildData BOX 1 (2/5) (Some []) ?g)) = Some ''#d4af37''" by blast
  from palette_lookup_defined[OF const_rng_ok m2]
  have c2: "color (hd (buildData BOX 1 (2/5) None ?g)) = Some ''#d4af37''" by blast
  from palette_lookup_defined[OF const_rng_ok m3] ne
  have c3: "\<exists>c \<in> set spherePalette.
      color (hd (buildData SPHERE 1 (1/4) (Some spherePalette) ?g)) = Some c" by blast
  show ?thesis using const_rng_ok m1 m2 m3 c1 c2 c3 by blast
qed

section \<open>The data of a group under the frame callback\<close>

lemma useFrame_data: "data (OrnamentGroup_useFrame st type tm dt s) = data s"
  by (simp add: OrnamentGroup_useFrame_def Let_def split: option.splits prod.splits)

lemma frames_data: "data (OrnamentGroup_frames type fs s) = data s"
proof (induction fs arbitrary: s)
  case Nil
  show ?case by (simp add: OrnamentGroup_frames_def)
next
  case (Cons f fs)
  obtain st tm dt where f: "f = (st, tm, dt)" by (cases f)
  have "OrnamentGroup_frames type (f # fs) s =
        OrnamentGroup_frames type fs (OrnamentGroup_useFrame st type tm dt s)"
    by (simp add: OrnamentGroup_frames_def f)
  then show ?case using Cons.IH[of "OrnamentGroup_useFrame st type tm dt s"]
    by (simp add: useFrame_data)
qed

text \<open>
  Claim C8. A frame leaves the data of the group as it was: after one frame, and after
  any run of frames, every record (its scatter and tree position, colour, rotation,
  speed, offset, scale and scale vector) is the record built at construction. A frame
  writes the progress, the scratch object and the instance matrices only.
\<close>

theorem frames_never_mutate_data:
  "data (OrnamentGroup_useFrame st type tm dt s) = data s \<and>
   data (OrnamentGroup_frames type fs s) = data s \<and>
   data (OrnamentGroup_frames type fs
           (OrnamentGroup_mount count (OrnamentGroup_init type count scaleBase palette g)))
     = buildData type count scaleBase palette g"
  by (simp add: useFrame_data frames_data OrnamentGroup_mount_def OrnamentGroup_init_def)

section \<open>The generators on degenerate arguments\<close>

lemma MAX_big: "1000 \<le> MAX_VALUE"
proof -
  have "(1::real) \<le> 2 ^ 971" by simp
  then have "(2 ^ 53 - 1) * (1::real) \<le> (2 ^ 53 - 1) * 2 ^ 971"
    by (intro mult_left_mono) auto
  then show ?thesis by (simp add: MAX_VALUE_def)
qed

lemma MAX_OVERFLOW: "MAX_VALUE < OVERFLOW"
proof -
  have "MAX_VALUE = 2 ^ 1024 - 2 * 2 ^ 970"
    by (simp add: MAX_VALUE_def algebra_simps flip: power_add)
  then show ?thesis by (simp add: OVERFLOW_def)
qed

lemma UNDERFLOW_pos: "0 < UNDERFLOW"
  by (simp add: UNDERFLOW_def)

lemmas js_arith = plus_jsnum_def minus_jsnum_def times_jsnum_def divide_jsnum_def uminus_jsnum_def

lemma round_js_near: "\<bar>r\<bar> \<le> MAX_VALUE \<Longrightarrow> near r (round_js r)"
  using MAX_OVERFLOW UNDERFLOW_pos MAX_big
  by (auto simp: round_js_def near_def in_range_def zero_js_def zero_le_mult_iff)

lemma near_zero: "near r (zero_js s)"
  using MAX_big by (simp add: near_def in_range_def zero_js_def)

lemma near_abs: "near r x \<Longrightarrow> \<bar>val x\<bar> \<le> \<bar>r\<bar>"
  by (simp add: near_def)

lemma near_range: "near r x \<Longrightarrow> in_range x"
  by (simp add: near_def)

lemma near_nonneg: "near r x \<Longrightarrow> 0 \<le> r \<Longrightarrow> 0 \<le> val x \<and> val x \<le> r"
proof -
  assume n: "near r x" and r: "0 \<le> r"
  have a: "\<bar>val x\<bar> \<le> r" using n r by (simp add: near_def)
  have "0 \<le> val x * r" using n by (simp add: near_def)
  then have "0 \<le> val x" using a r by (cases "r = 0") (auto simp: zero_le_mult_iff)
  then show ?thesis using a by simp
qed

lemma finite_not_NaN: "isFinite x \<Longrightarrow> x \<noteq> NaN"
  by (cases x) auto

lemma mul_near:
  assumes "in_range a" "in_range b" "\<bar>val a * val b\<bar> \<le> MAX_VALUE"
  shows "near (val a * val b) (a * b)"
proof -
  have f: "isFinite a" "isFinite b" "a \<noteq> NaN" "b \<noteq> NaN"
    using assms by (auto simp: in_range_def finite_not_NaN)
  show ?thesis
  proof (cases "val a * val b = 0")
    case True
    then have "a * b = zero_js (negative a \<noteq> negative b)"
      using f by (simp add: times_jsnum_def jmul_def)
    then show ?thesis by (simp add: near_zero)
  next
    case False
    then have "a * b = round_js (val a * val b)"
      using f by (simp add: times_jsnum_def jmul_def)
    then show ?thesis using round_js_near[OF assms(3)] by simp
  qed
qed

lemma add_near:
  assumes "in_range a" "in_range b" "\<bar>val a + val b\<bar> \<le> MAX_VALUE"
  shows "near (val a + val b) (a + b)"
proof -
  have f: "isFinite a" "isFinite b" "a \<noteq> NaN" "b \<noteq> NaN"
    using assms by (auto simp: in_range_def finite_not_NaN)
  show ?thesis
  proof (cases "val a + val b = 0")
    case True
    then have "a + b = zero_js (a = NZero \<and> b = NZero)"
      using f by (simp add: plus_jsnum_def jadd_def)
    then show ?thesis by (simp add: near_zero)
  next
    case False
    then have "a + b = round_js (val a + val b)"
      using f by (simp add: plus_jsnum_def jadd_def)
    then show ?thesis using round_js_near[OF assms(3)] by simp
  qed
qed

lemma jneg_range: "in_range b \<Longrightarrow> in_range (jneg b) \<and> val (jneg b) = - val b"
  by (cases b) (auto simp: in_range_def)

lemma sub_near:
  assumes "in_range a" "in_range b" "\<bar>val a - val b\<bar> \<le> MAX_VALUE"
  shows "near (val a - val b) (a - b)"
proof -
  have n: "in_range (jneg b)" "val (jneg b) = - val b" using jneg_range[OF assms(2)] by auto
  have "near (val a + val (jneg b)) (a + jneg b)"
    by (rule add_near[OF assms(1) n(1)]) (use assms(3) n(2) in simp)
  then show ?thesis by (simp add: n(2) minus_jsnum_def plus_jsnum_def)
qed

lemma div_near:
  assumes "in_range a" "in_range b" "val b \<noteq> 0" "\<bar>val a / val b\<bar> \<le> MAX_VALUE"
  shows "near (val a / val b) (a / b)"
proof -
  have f: "isFinite a" "isFinite b" "a \<noteq> NaN" "b \<noteq> NaN"
    using assms by (auto simp: in_range_def finite_not_NaN)
  show ?thesis
  proof (cases "val a = 0")
    case True
    then have "a / b = zero_js (negative a \<noteq> negative b)"
      using f assms(3) by (simp add: divide_jsnum_def jdiv_def)
    then show ?thesis by (simp add: near_zero)
  next
    case False
    then have "a / b = round_js (val a / val b)"
      using f assms(3) by (simp add: divide_jsnum_def jdiv_def)
    then show ?thesis using round_js_near[OF assms(4)] by simp
  qed
qed

text \<open>A factor of magnitude at most one keeps a product in range.\<close>

lemma mul_small_right:
  assumes "in_range a" "in_range b" "\<bar>val b\<bar> \<le> 1"
  shows "in_range (a * b) \<and> \<bar>val (a * b)\<bar> \<le> \<bar>val a\<bar>"
proof -
  have "\<bar>val a\<bar> * \<bar>val b\<bar> \<le> \<bar>val a\<bar> * 1"
    using assms(3) by (intro mult_left_mono) auto
  then have le: "\<bar>val a * val b\<bar> \<le> \<bar>val a\<bar>" by (simp add: abs_mult)
  then have "\<bar>val a * val b\<bar> \<le> MAX_VALUE" using assms(1) by (simp add: in_range_def)
  from mul_near[OF assms(1,2) this] le show ?thesis
    using near_abs near_range by fastforce
qed

lemma mul_small_left:
  assumes "in_range a" "in_range b" "\<bar>val a\<bar> \<le> 1"
  shows "in_range (a * b) \<and> \<bar>val (a * b)\<bar> \<le> \<bar>val b\<bar>"
proof -
  have "\<bar>val a\<bar> * \<bar>val b\<bar> \<le> 1 * \<bar>val b\<bar>"
    using assms(3) by (intro mult_right_mono) auto
  then have le: "\<bar>val a * val b\<bar> \<le> \<bar>val b\<bar>" by (simp add: abs_mult)
  then have "\<bar>val a * val b\<bar> \<le> MAX_VALUE" using assms(2) by (simp add: in_range_def)
  from mul_near[OF assms(1,2) this] le show ?thesis
    using near_abs near_range by fastforce
qed

lemma jsin_small: "isFinite a \<Longrightarrow> in_range (jsin a) \<and> \<bar>val (jsin a)\<bar> \<le> 1"
  using MAX_big by (cases a) (auto simp: in_range_def intro: order_trans[of _ 1])

lemma jcos_small: "isFinite a \<Longrightarrow> in_range (jcos a) \<and> \<bar>val (jcos a)\<bar> \<le> 1"
  using MAX_big by (cases a) (auto simp: in_range_def intro: order_trans[of _ 1])

lemma jacos_range:
  assumes "in_range c" "\<bar>val c\<bar> \<le> 1"
  shows "isFinite (jacos c)"
  using assms by (cases c) (auto simp: in_range_def)

lemma unit_range: "0 \<le> u \<Longrightarrow> u \<le> 1 \<Longrightarrow> in_range (Fin u) \<and> \<bar>val (Fin u)\<bar> \<le> 1"
  using MAX_big by (simp add: in_range_def)

lemma draw_range: "0 \<le> u \<Longrightarrow> u < 1 \<Longrightarrow> in_range (Fin u) \<and> \<bar>val (Fin u)\<bar> \<le> 1"
  using unit_range[of u] by simp

lemma angle_finite:
  assumes "0 \<le> u" "u < 1"
  shows "isFinite (Fin 2 * Fin pi * Fin u)" "isFinite (Fin u * Fin pi * Fin 2)"
proof -
  have p: "in_range (Fin pi)" "in_range (Fin 2)" using MAX_big pi_less_4 pi_gt_zero
    by (auto simp: in_range_def)
  have u: "in_range (Fin u)" "\<bar>val (Fin u)\<bar> \<le> 1" using draw_range[OF assms] by auto
  have a: "\<bar>val (Fin 2) * val (Fin pi)\<bar> \<le> MAX_VALUE" using MAX_big pi_less_4 pi_gt_zero by simp
  have "in_range (Fin 2 * Fin pi)" using mul_near[OF p(2) p(1) a] by (rule near_range)
  from mul_small_right[OF this u] show "isFinite (Fin 2 * Fin pi * Fin u)"
    by (simp add: in_range_def)
  have b: "in_range (Fin u * Fin pi)" "\<bar>val (Fin u * Fin pi)\<bar> \<le> \<bar>val (Fin pi)\<bar>"
    using mul_small_left[OF u(1) p(1) u(2)] by auto
  have "\<bar>val (Fin u * Fin pi) * val (Fin 2)\<bar> \<le> MAX_VALUE"
    using b(2) MAX_big pi_less_4 pi_gt_zero by (simp add: abs_mult)
  from mul_near[OF b(1) p(2) this] show "isFinite (Fin u * Fin pi * Fin 2)"
    by (simp add: near_def in_range_def)
qed

lemma phi_finite:
  assumes "0 \<le> v" "v < 1"
  shows "isFinite (jacos (Fin 2 * Fin v - Fin 1))"
proof -
  have two: "in_range (Fin 2)" and one: "in_range (Fin 1)" and v: "in_range (Fin v)"
    using MAX_big assms by (auto simp: in_range_def)
  have "\<bar>val (Fin 2) * val (Fin v)\<bar> \<le> MAX_VALUE" using MAX_big assms by simp
  from mul_near[OF two v this] have n: "near (2 * v) (Fin 2 * Fin v)" by simp
  then have b: "0 \<le> val (Fin 2 * Fin v)" "val (Fin 2 * Fin v) \<le> 2 * v"
    using near_nonneg[OF n] assms by auto
  have r: "in_range (Fin 2 * Fin v)" using n by (rule near_range)
  have s: "\<bar>val (Fin 2 * Fin v) - val (Fin 1)\<bar> \<le> 1" using b assms by simp
  then have "\<bar>val (Fin 2 * Fin v) - val (Fin 1)\<bar> \<le> MAX_VALUE" using MAX_big by linarith
  from sub_near[OF r one this]
  have "in_range (Fin 2 * Fin v - Fin 1)" "\<bar>val (Fin 2 * Fin v - Fin 1)\<bar> \<le> 1"
    using s near_abs near_range by fastforce+
  then show ?thesis by (rule jacos_range)
qed

lemma one_minus_draw:
  assumes "in_range h" "0 \<le> val h" "val h \<le> 1"
  shows "in_range (Fin 1 - h) \<and> \<bar>val (Fin 1 - h)\<bar> \<le> 1"
proof -
  have one: "in_range (Fin 1)" using MAX_big by (simp add: in_range_def)
  have s: "\<bar>val (Fin 1) - val h\<bar> \<le> 1" using assms by simp
  then have "\<bar>val (Fin 1) - val h\<bar> \<le> MAX_VALUE" using MAX_big by linarith
  from sub_near[OF one assms(1) this] s show ?thesis
    using near_abs near_range by fastforce
qed

lemma sphere_js_finite:
  assumes g: "rng_ok g" and rad: "in_range radius"
  shows "finite_point (fst (getRandomSpherePoint_js radius g))"
proof -
  let ?u = "g 0" and ?v = "g (Suc 0)" and ?w = "g (Suc (Suc 0))"
  let ?theta = "Fin 2 * Fin pi * Fin ?u"
  let ?phi = "jacos (Fin 2 * Fin ?v - Fin 1)"
  let ?r = "jcbrt (Fin ?w) * radius"
  have u: "0 \<le> ?u" "?u < 1" and v: "0 \<le> ?v" "?v < 1" and w: "0 \<le> ?w" "?w < 1"
    using rng_ok_head[OF g] by auto
  have th: "isFinite ?theta" using angle_finite(1)[OF u] .
  have ph: "isFinite ?phi" using phi_finite[OF v] .
  have cw: "0 \<le> root 3 ?w" "root 3 ?w \<le> 1"
    using w by (auto simp: real_root_le_iff[of 3 _ 1, simplified])
  have c: "in_range (jcbrt (Fin ?w))" "\<bar>val (jcbrt (Fin ?w))\<bar> \<le> 1"
    using unit_range[OF cw] by auto
  have r: "in_range ?r" using mul_small_left[OF c(1) rad c(2)] by simp
  have rs: "in_range (?r * jsin ?phi)"
    using mul_small_right[OF r] jsin_small[OF ph] by simp
  have x: "in_range (?r * jsin ?phi * jcos ?theta)"
    using mul_small_right[OF rs] jcos_small[OF th] by simp
  have y: "in_range (?r * jsin ?phi * jsin ?theta)"
    using mul_small_right[OF rs] jsin_small[OF th] by simp
  have z: "in_range (?r * jcos ?phi)"
    using mul_small_right[OF r] jcos_small[OF ph] by simp
  have "fst (getRandomSpherePoint_js radius g) =
        (?r * jsin ?phi * jcos ?theta, ?r * jsin ?phi * jsin ?theta, ?r * jcos ?phi)"
    by (simp add: getRandomSpherePoint_js_def random_def Let_def)
  then show ?thesis using x y z by (simp add: finite_point_def in_range_def)
qed

lemma tree_js_finite:
  assumes g: "rng_ok g" and h: "in_range height" and rb: "in_range radiusBase"
    and yo: "in_range yOffset" and sum: "\<bar>val height\<bar> + \<bar>val yOffset\<bar> \<le> MAX_VALUE"
  shows "finite_point (fst (getTreePoint_js height radiusBase yOffset g))"
proof -
  let ?h = "g 0" and ?a = "g (Suc 0)" and ?s = "g (Suc (Suc 0))"
  let ?y = "Fin ?h * height"
  let ?cr = "(Fin 1 - Fin ?h) * radiusBase"
  let ?angle = "Fin ?a * Fin pi * Fin 2"
  let ?r = "jsqrt (Fin ?s) * ?cr"
  have hh: "0 \<le> ?h" "?h < 1" and a: "0 \<le> ?a" "?a < 1" and s: "0 \<le> ?s" "?s < 1"
    using rng_ok_head[OF g] by auto
  have fh: "in_range (Fin ?h)" "\<bar>val (Fin ?h)\<bar> \<le> 1" using draw_range[OF hh] by auto
  have y: "in_range ?y" "\<bar>val ?y\<bar> \<le> \<bar>val height\<bar>"
    using mul_small_left[OF fh(1) h fh(2)] by auto
  have "\<bar>val ?y + val yOffset\<bar> \<le> MAX_VALUE" using y(2) sum by linarith
  from add_near[OF y(1) yo this] have yy: "in_range (?y + yOffset)" by (rule near_range)
  have d: "in_range (Fin 1 - Fin ?h)" "\<bar>val (Fin 1 - Fin ?h)\<bar> \<le> 1"
    using one_minus_draw[OF fh(1)] hh by auto
  have cr: "in_range ?cr" using mul_small_left[OF d(1) rb d(2)] by simp
  have an: "isFinite ?angle" using angle_finite(2)[OF a] .
  have qs: "0 \<le> sqrt ?s" "sqrt ?s \<le> 1" using s by auto
  have "jsqrt (Fin ?s) = Fin (sqrt ?s)" using s by simp
  then have q: "in_range (jsqrt (Fin ?s))" "\<bar>val (jsqrt (Fin ?s))\<bar> \<le> 1"
    using unit_range[OF qs] by auto
  have r: "in_range ?r" using mul_small_left[OF q(1) cr q(2)] by simp
  have x: "in_range (?r * jcos ?angle)"
    using mul_small_right[OF r] jcos_small[OF an] by simp
  have z: "in_range (?r * jsin ?angle)"
    using mul_small_right[OF r] jsin_small[OF an] by simp
  have "fst (getTreePoint_js height radiusBase yOffset g) =
        (?r * jcos ?angle, ?y + yOffset, ?r * jsin ?angle)"
    by (simp add: getTreePoint_js_def random_def Let_def)
  then show ?thesis using x yy z by (simp add: finite_point_def in_range_def)
qed

lemma spiral_js_finite:
  assumes t: "in_range t" and n: "in_range totalPoints" and h: "in_range height"
    and rb: "in_range radiusBase" and yo: "in_range yOffset"
    and idx: "0 \<le> val t" "val t \<le> val totalPoints" "0 < val totalPoints"
    and sum: "\<bar>val height\<bar> + \<bar>val yOffset\<bar> \<le> MAX_VALUE"
    and ang: "val t * 2.39996 \<le> MAX_VALUE"
  shows "finite_point (fst (getTreeSpiralPoint_js t totalPoints height radiusBase yOffset g))"
proof -
  let ?hRatio = "t / totalPoints"
  let ?y = "?hRatio * height + yOffset"
  let ?r = "(Fin 1 - ?hRatio) * radiusBase"
  let ?angle = "t * Fin 2.39996"
  have q: "0 \<le> val t / val totalPoints" "val t / val totalPoints \<le> 1" using idx by auto
  then have "\<bar>val t / val totalPoints\<bar> \<le> MAX_VALUE" using MAX_big by linarith
  from div_near[OF t n _ this] idx(3)
  have nr: "near (val t / val totalPoints) ?hRatio" by simp
  have hr: "in_range ?hRatio" "0 \<le> val ?hRatio" "val ?hRatio \<le> 1"
    using near_range[OF nr] near_nonneg[OF nr q(1)] q(2) by auto
  have hh: "in_range (?hRatio * height)" "\<bar>val (?hRatio * height)\<bar> \<le> \<bar>val height\<bar>"
    using mul_small_left[OF hr(1) h] hr(2,3) by auto
  have "\<bar>val (?hRatio * height) + val yOffset\<bar> \<le> MAX_VALUE" using hh(2) sum by linarith
  from add_near[OF hh(1) yo this] have y: "in_range ?y" by (rule near_range)
  have d: "in_range (Fin 1 - ?hRatio)" "\<bar>val (Fin 1 - ?hRatio)\<bar> \<le> 1"
    using one_minus_draw[OF hr] by auto
  have r: "in_range ?r" using mul_small_left[OF d(1) rb d(2)] by simp
  have c: "in_range (Fin 2.39996)" using MAX_big by (simp add: in_range_def)
  have "\<bar>val t * val (Fin 2.39996)\<bar> \<le> MAX_VALUE" using ang idx(1) by (simp add: abs_mult)
  from mul_near[OF t c this] have an: "isFinite ?angle" by (simp add: near_def in_range_def)
  have x: "in_range (?r * jcos ?angle)"
    using mul_small_right[OF r] jcos_small[OF an] by simp
  have z: "in_range (?r * jsin ?angle)"
    using mul_small_right[OF r] jsin_small[OF an] by simp
  have "fst (getTreeSpiralPoint_js t totalPoints height radiusBase yOffset g) =
        (?r * jcos ?angle, ?y, ?r * jsin ?angle)"
    by (simp add: getTreeSpiralPoint_js_def Let_def)
  then show ?thesis using x y z by (simp add: finite_point_def in_range_def)
qed

lemma spiral_js_zero_total:
  assumes "isFinite t" "isFinite totalPoints" "val totalPoints = 0" "isFinite height"
    "isFinite yOffset"
  shows "\<not> finite_point (fst (getTreeSpiralPoint_js t totalPoints height radiusBase yOffset g))"
proof -
  have a: "t / totalPoints = NaN \<or> t / totalPoints = PInf \<or> t / totalPoints = NInf"
    using assms(1,2,3) by (auto simp: divide_jsnum_def jdiv_def inf_js_def finite_not_NaN)
  then have b: "t / totalPoints * height = NaN \<or> t / totalPoints * height = PInf \<or>
        t / totalPoints * height = NInf"
    using assms(4) by (auto simp: times_jsnum_def jmul_def inf_js_def finite_not_NaN)
  then have "\<not> isFinite (t / totalPoints * height + yOffset)"
    using assms(5) by (auto simp: plus_jsnum_def jadd_def finite_not_NaN)
  then show ?thesis by (simp add: getTreeSpiralPoint_js_def Let_def finite_point_def)
qed

lemma spiral_js_zero_zero:
  assumes "isFinite t" "val t = 0" "isFinite totalPoints" "val totalPoints = 0"
  shows "fst (getTreeSpiralPoint_js t totalPoints height radiusBase yOffset g) = (NaN, NaN, NaN)"
proof -
  have "t / totalPoints = NaN"
    using assms by (simp add: divide_jsnum_def jdiv_def finite_not_NaN)
  then show ?thesis
    by (simp add: getTreeSpiralPoint_js_def Let_def js_arith jmul_def jadd_def)
qed

text \<open>
  The spiral placement of index \<open>0\<close> among \<open>0\<close> points, with the height, radius and offset
  of a sphere group: \<open>0 / 0\<close> is \<open>NaN\<close>, and so is every coordinate.
\<close>

theorem spiral_zero_total_counterexample:
  "fst (getTreeSpiralPoint_js (Fin 0) (Fin 0) (Fin 12) (Fin 4.95) (Fin (- 5)) (\<lambda>n. 0)) =
     (NaN, NaN, NaN)"
  by (simp add: getTreeSpiralPoint_js_def js_arith jmul_def jadd_def jdiv_def Let_def)

text \<open>
  Claim C3, as the code has it. No generator rejects or clamps an argument. With draws
  in \<open>[0, 1)\<close>, \<open>getRandomSpherePoint\<close> returns a finite point, without \<open>NaN\<close>, for every
  radius in range, zero and negative ones included; so does \<open>getTreePoint\<close> for every
  height, base radius and offset in range whose sum \<open>|height| + |yOffset|\<close> does not
  overflow. \<open>getTreeSpiralPoint\<close> returns a finite point for arguments in range with
  \<open>0 \<le> t \<le> totalPoints\<close> and \<open>0 < totalPoints\<close> (the calls of the builder), when that
  sum and the angle \<open>t * 2.39996\<close> do not overflow. With a total of \<open>+0\<close> or \<open>-0\<close> and
  finite index, height and offset its point is never finite, and at index \<open>0\<close> all three
  coordinates are \<open>NaN\<close>.
\<close>

theorem generators_finite_without_guards:
  "(\<forall>radius g. rng_ok g \<and> in_range radius \<longrightarrow>
      finite_point (fst (getRandomSpherePoint_js radius g))) \<and>
   (\<forall>height radiusBase yOffset g.
      rng_ok g \<and> in_range height \<and> in_range radiusBase \<and> in_range yOffset \<and>
      \<bar>val height\<bar> + \<bar>val yOffset\<bar> \<le> MAX_VALUE \<longrightarrow>
      finite_point (fst (getTreePoint_js height radiusBase yOffset g))) \<and>
   (\<forall>t totalPoints height radiusBase yOffset g.
      in_range t \<and> in_range totalPoints \<and> in_range height \<and> in_range radiusBase \<and>
      in_range yOffset \<and> 0 \<le> val t \<and> val t \<le> val totalPoints \<and> 0 < val totalPoints \<and>
      \<bar>val height\<bar> + \<bar>val yOffset\<bar> \<le> MAX_VALUE \<and> val t * 2.39996 \<le> MAX_VALUE \<longrightarrow>
      finite_point (fst (getTreeSpiralPoint_js t totalPoints height radiusBase yOffset g))) \<and>
   (\<forall>t totalPoints height radiusBase yOffset g.
      isFinite t \<and> isFinite totalPoints \<and> val totalPoints = 0 \<and> isFinite height \<and>
      isFinite yOffset \<longrightarrow>
      \<not> finite_point (fst (getTreeSpiralPoint_js t totalPoints height radiusBase yOffset g))) \<and>
   (\<forall>t totalPoints height radiusBase yOffset g.
      isFinite t \<and> val t = 0 \<and> isFinite totalPoints \<and> val totalPoints = 0 \<longrightarrow>
      fst (getTreeSpiralPoint_js t totalPoints height radiusBase yOffset g) = (NaN, NaN, NaN))"
proof -
  have A: "\<forall>radius g. rng_ok g \<and> in_range radius \<longrightarrow>
      finite_point (fst (getRandomSpherePoint_js radius g))"
    using sphere_js_finite by blast
  have B: "\<forall>height radiusBase yOffset g.
      rng_ok g \<and> in_range height \<and> in_range radiusBase \<and> in_range yOffset \<and>
      \<bar>val height\<bar> + \<bar>val yOffset\<bar> \<le> MAX_VALUE \<longrightarrow>
      finite_point (fst (getTreePoint_js height radiusBase yOffset g))"
    using tree_js_finite by blast
  have C: "\<forall>t totalPoints height radiusBase yOffset g.
      in_range t \<and> in_range totalPoints \<and> in_range height \<and> in_range radiusBase \<and>
      in_range yOffset \<and> 0 \<le> val t \<and> val t \<le> val totalPoints \<and> 0 < val totalPoints \<and>
      \<bar>val height\<bar> + \<bar>val yOffset\<bar> \<le> MAX_VALUE \<and> val t * 2.39996 \<le> MAX_VALUE \<longrightarrow>
      finite_point (fst (getTreeSpiralPoint_js t totalPoints height radiusBase yOffset g))"
    using spiral_js_finite by blast
  have D: "\<forall>t totalPoints height radiusBase yOffset g.
      isFinite t \<and> isFinite totalPoints \<and> val totalPoints = 0 \<and> isFinite height \<and>
      isFinite yOffset \<longrightarrow>
      \<not> finite_point (fst (getTreeSpiralPoint_js t totalPoints height radiusBase yOffset g))"
    using spiral_js_zero_total by blast
  have E: "\<forall>t totalPoints height radiusBase yOffset g.
      isFinite t \<and> val t = 0 \<and> isFinite totalPoints \<and> val totalPoints = 0 \<longrightarrow>
      fst (getTreeSpiralPoint_js t totalPoints height radiusBase yOffset g) = (NaN, NaN, NaN)"
    using spiral_js_zero_zero by blast
  show ?thesis by (rule conjI[OF A conjI[OF B conjI[OF C conjI[OF D E]]]])
qed

theorem generators_finite_without_guards_witness:
  "rng_ok (\<lambda>n. 1/100) \<and> in_range (Fin 0) \<and> in_range NZero \<and> in_range (Fin (- 18)) \<and>
   finite_point (fst (getRandomSpherePoint_js (Fin 0) (\<lambda>n. 1/100))) \<and>
   finite_point (fst (getRandomSpherePoint_js NZero (\<lambda>n. 1/100))) \<and>
   finite_point (fst (getRandomSpherePoint_js (Fin (- 18)) (\<lambda>n. 1/100))) \<and>
   in_range (Fin 12) \<and> in_range (Fin (- 5.5)) \<and> in_range (Fin (- 5)) \<and>
   \<bar>val (Fin 12)\<bar> + \<bar>val (Fin (- 5))\<bar> \<le> MAX_VALUE \<and>
   finite_point (fst (getTreePoint_js (Fin 12) (Fin 0) (Fin (- 5)) (\<lambda>n. 1/100))) \<and>
   finite_point (fst (getTreePoint_js (Fin 12) (Fin (- 5.5)) (Fin (- 5)) (\<lambda>n. 1/100))) \<and>
   in_range (Fin 250) \<and> in_range (Fin 4.95) \<and> 0 \<le> val (Fin 0) \<and> val (Fin 0) \<le> val (Fin 250) \<and>
   0 < val (Fin 250) \<and> val (Fin 0) * 2.39996 \<le> MAX_VALUE \<and>
   finite_point (fst (getTreeSpiralPoint_js (Fin 0) (Fin 250) (Fin 12) (Fin 4.95) (Fin (- 5)) (\<lambda>n. 1/100))) \<and>
   isFinite (Fin 1) \<and> isFinite NZero \<and> val NZero = 0 \<and> isFinite (Fin 12) \<and> isFinite (Fin (- 5)) \<and>
   \<not> finite_point (fst (getTreeSpiralPoint_js (Fin 1) NZero (Fin 12) (Fin 4.95) (Fin (- 5)) (\<lambda>n. 1/100))) \<and>
   fst (getTreeSpiralPoint_js NZero (Fin 0) (Fin 12) (Fin 4.95) (Fin (- 5)) (\<lambda>n. 1/100)) = (NaN, NaN, NaN)"
proof -
  note T = generators_finite_without_guards
  have ok: "rng_ok (\<lambda>n. 1/100)" by (simp add: rng_ok_def)
  have r: "in_range (Fin 0)" "in_range NZero" "in_range (Fin (- 18))" "in_range (Fin 12)"
    "in_range (Fin (- 5.5))" "in_range (Fin (- 5))" "in_range (Fin 250)" "in_range (Fin 4.95)"
    using MAX_big by (simp_all add: in_range_def)
  have s: "\<bar>val (Fin 12)\<bar> + \<bar>val (Fin (- 5))\<bar> \<le> MAX_VALUE" using MAX_big by simp
  have i: "0 \<le> val (Fin 0)" "val (Fin 0) \<le> val (Fin 250)" "0 < val (Fin 250)"
    "val (Fin 0) * 2.39996 \<le> MAX_VALUE" using MAX_big by simp_all
  have f: "isFinite (Fin 1)" "isFinite NZero" "val NZero = 0" "isFinite (Fin 12)"
    "isFinite (Fin (- 5))" "isFinite (Fin 0)" "val (Fin 0) = 0" by simp_all
  note TA = T[THEN conjunct1, rule_format]
  note TB = T[THEN conjunct2, THEN conjunct1, rule_format]
  note TC = T[THEN conjunct2, THEN conjunct2, THEN conjunct1, rule_format]
  note TD = T[THEN conjunct2, THEN conjunct2, THEN conjunct2, THEN conjunct1, rule_format]
  note TE = T[THEN conjunct2, THEN conjunct2, THEN conjunct2, THEN conjunct2, rule_format]
  have a1: "finite_point (fst (getRandomSpherePoint_js (Fin 0) (\<lambda>n. 1/100)))"
    by (rule TA) (simp add: ok r)
  have a2: "finite_point (fst (getRandomSpherePoint_js NZero (\<lambda>n. 1/100)))"
    by (rule TA) (simp add: ok r)
  have a3: "finite_point (fst (getRandomSpherePoint_js (Fin (- 18)) (\<lambda>n. 1/100)))"
    by (rule TA) (simp add: ok r)
  have b1: "finite_point (fst (getTreePoint_js (Fin 12) (Fin 0) (Fin (- 5)) (\<lambda>n. 1/100)))"
    by (rule TB) (use ok r s in simp)
  have b2: "finite_point (fst (getTreePoint_js (Fin 12) (Fin (- 5.5)) (Fin (- 5)) (\<lambda>n. 1/100)))"
    by (rule TB) (use ok r s in simp)
  have c: "finite_point (fst (getTreeSpiralPoint_js (Fin 0) (Fin 250) (Fin 12) (Fin 4.95) (Fin (- 5)) (\<lambda>n. 1/100)))"
    by (rule TC) (use r s i in simp)
  have d: "\<not> finite_point (fst (getTreeSpiralPoint_js (Fin 1) NZero (Fin 12) (Fin 4.95) (Fin (- 5)) (\<lambda>n. 1/100)))"
    by (rule TD) simp
  have e: "fst (getTreeSpiralPoint_js NZero (Fin 0) (Fin 12) (Fin 4.95) (Fin (- 5)) (\<lambda>n. 1/100)) = (NaN, NaN, NaN)"
    by (rule TE) simp
  show ?thesis using ok r s i f a1 a2 a3 b1 b2 c d e by simp
qed

section \<open>The spiral placement and the random source\<close>

lemma round_js_exact: "1 \<le> \<bar>r\<bar> \<Longrightarrow> \<bar>r\<bar> \<le> 1000 \<Longrightarrow> round_js r = Fin r"
proof -
  assume a: "1 \<le> \<bar>r\<bar>" "\<bar>r\<bar> \<le> 1000"
  have "UNDERFLOW < 1" by (simp add: UNDERFLOW_def)
  then show ?thesis using a MAX_big MAX_OVERFLOW by (simp add: round_js_def)
qed

lemma getTreePoint_js_depends_on_draws:
  "fst (getTreePoint_js (Fin 12) (Fin 5.5) (Fin (- 5)) (\<lambda>n. 0)) \<noteq>
   fst (getTreePoint_js (Fin 12) (Fin 5.5) (Fin (- 5)) (\<lambda>n. 1/2))"
proof -
  have a: "fst (snd (fst (getTreePoint_js (Fin 12) (Fin 5.5) (Fin (- 5)) (\<lambda>n. 0)))) = Fin (- 5)"
    by (simp add: getTreePoint_js_def random_def Let_def js_arith jmul_def jadd_def zero_js_def
          round_js_exact)
  have b: "fst (snd (fst (getTreePoint_js (Fin 12) (Fin 5.5) (Fin (- 5)) (\<lambda>n. 1/2)))) = Fin 1"
    by (simp add: getTreePoint_js_def random_def Let_def js_arith jmul_def jadd_def zero_js_def
          round_js_exact)
  show ?thesis using a b by auto
qed

lemma mkItem_tree:
  "tree (fst (mkItem type count sb palette i g)) =
     (case getTreeSpiralPoint (real i) (real count) TREE_HEIGHT
             (TREE_RADIUS_BASE * (if type = BOX then 0.8 else 0.9)) (- 5) of
        (tx, ty, tz) \<Rightarrow> (tx + (g 3 - 0.5) * 0.5, ty, tz + (g 4 - 0.5) * 0.5))"
  by (simp add: mkItem_def getRandomSpherePoint_def random_def Let_def case_prod_beta
        eval_nat_numeral)

text \<open>
  Claim C7. \<open>getTreeSpiralPoint\<close> is deterministic. Called with the same five arguments
  under any two streams of \<open>Math.random()\<close>, it returns the same three coordinates, the
  special values included, and it leaves the stream as it found it: it draws nothing.
  (\<open>getTreePoint\<close> does not have this property, see above.) At its call in the builder
  the stream enters the tree position only through the two jitter draws that follow
  the call, \<open>g 3\<close> and \<open>g 4\<close>.
\<close>

theorem spiral_deterministic:
  "fst (getTreeSpiralPoint_js t totalPoints height radiusBase yOffset g1) =
   fst (getTreeSpiralPoint_js t totalPoints height radiusBase yOffset g2) \<and>
   snd (getTreeSpiralPoint_js t totalPoints height radiusBase yOffset g1) = g1 \<and>
   tree (fst (mkItem type count scaleBase palette i g)) =
     (case getTreeSpiralPoint (real i) (real count) TREE_HEIGHT
             (TREE_RADIUS_BASE * (if type = BOX then 0.8 else 0.9)) (- 5) of
        (tx, ty, tz) \<Rightarrow> (tx + (g 3 - 0.5) * 0.5, ty, tz + (g 4 - 0.5) * 0.5))"
  by (simp add: getTreeSpiralPoint_js_def Let_def mkItem_tree)

end
